theory Spec2Isabelle
  imports Complex_Main "HOL-Library.Char_ord" "HOL-Library.List_Lexorder" "HOL-Library.Option_ord"
    "HOL-Library.Multiset"
begin

section \<open>The relational store\<close>

text \<open>
  The five tables of the migration, one record per row. Columns declared
  \<open>notNullable\<close> carry a value, the other columns an option (\<open>None\<close> is SQL NULL).
  Ids are the strings produced by \<open>uuid.v4()\<close>; the two timestamps of every table
  are points of a discrete clock. A table is the list of its rows in insertion order.
  The rating column is declared integer, but the store keeps any number it is given
  (the seed data holds 4.5), so ratings are rationals.
\<close>

type_synonym uuid = string
type_synonym timestamp = nat

record business_row =
  b_id :: uuid
  b_name :: string
  b_addressLine1 :: "string option"
  b_addressLine2 :: "string option"
  b_city :: "string option"
  b_state :: "string option"
  b_postal :: "string option"
  b_created_at :: timestamp
  b_updated_at :: timestamp

record location_row =
  l_id :: uuid
  l_businessId :: uuid
  l_name :: string
  l_created_at :: timestamp
  l_updated_at :: timestamp

record hour_row =
  h_id :: uuid
  h_businessId :: uuid
  h_dayOfWeek :: int
  h_open :: int
  h_close :: int
  h_created_at :: timestamp
  h_updated_at :: timestamp

record service_row =
  s_id :: uuid
  s_businessId :: uuid
  s_name :: string
  s_created_at :: timestamp
  s_updated_at :: timestamp

record review_row =
  r_id :: uuid
  r_businessId :: uuid
  r_rating :: rat
  r_comment :: "string option"
  r_created_at :: timestamp
  r_updated_at :: timestamp

record store =
  businesses :: "business_row list"
  locations :: "location_row list"
  hours :: "hour_row list"
  services :: "service_row list"
  reviews :: "review_row list"

text \<open>What a handler sends back: the status code, and the JSON body of a 200.\<close>

datatype 'a response = OK 'a | BadRequest | NotFound | ServerError

fun status :: "'a response \<Rightarrow> nat" where
  "status (OK _) = 200"
| "status BadRequest = 400"
| "status NotFound = 404"
| "status ServerError = 500"

section \<open>Operators of the storage backend and of the language\<close>

text \<open>
  \<open>String.prototype.toLowerCase\<close> on the ASCII range, which is all that the
  comparisons of the handlers look at.
\<close>

definition toLowerCase_char :: "char \<Rightarrow> char" where
  "toLowerCase_char c =
     (let n = (of_char c :: nat) in if 65 \<le> n \<and> n \<le> 90 then char_of (n + 32) else c)"

definition toLowerCase :: "string \<Rightarrow> string" where
  "toLowerCase s = map toLowerCase_char s"

text \<open>A string in a condition is true when it is present and not empty.\<close>

fun truthy :: "string option \<Rightarrow> bool" where
  "truthy None = False"
| "truthy (Some s) = (s \<noteq> [])"

text \<open>
  The LIKE operator of the store: \<open>%\<close> stands for any run of characters, \<open>_\<close> for any
  one character, and letters of the ASCII range match without regard to case. The first
  argument is the pattern.
\<close>

fun sql_like :: "string \<Rightarrow> string \<Rightarrow> bool" where
  "sql_like [] t = (t = [])"
| "sql_like (p # ps) t =
     (if p = CHR ''%'' then
        (sql_like ps t \<or> (case t of [] \<Rightarrow> False | c # cs \<Rightarrow> sql_like (p # ps) cs))
      else
        (case t of [] \<Rightarrow> False
         | c # cs \<Rightarrow> (p = CHR ''_'' \<or> toLowerCase_char p = toLowerCase_char c) \<and> sql_like ps cs))"

text \<open>
  \<open>where(col, 'like', `%${x.toLowerCase()}%`)\<close>: a NULL column satisfies no
  comparison.
\<close>

definition like_contains :: "string \<Rightarrow> string option \<Rightarrow> bool" where
  "like_contains x col =
     (case col of None \<Rightarrow> False
      | Some t \<Rightarrow> sql_like (CHR ''%'' # toLowerCase x @ [CHR ''%'']) t)"

text \<open>
  The aggregate \<open>avg\<close> is NULL over no rows. \<open>round(x, 1)\<close> gives the closest
  number with one decimal, a tie going away from zero, and NULL for NULL. Both are
  taken over exact rationals; the rounding error of the store's binary floating point
  numbers is outside this development.
\<close>

definition sql_avg :: "rat list \<Rightarrow> rat option" where
  "sql_avg xs = (if xs = [] then None else Some (sum_list xs / of_nat (length xs)))"

definition sql_round1 :: "rat option \<Rightarrow> rat option" where
  "sql_round1 v =
     (case v of None \<Rightarrow> None
      | Some x \<Rightarrow>
          Some (if 0 \<le> x then of_int \<lfloor>x * 10 + 1 / 2\<rfloor> / 10
                else - (of_int \<lfloor>- x * 10 + 1 / 2\<rfloor> / 10)))"

section \<open>The aggregate fetcher\<close>

text \<open>
  \<open>getLocations\<close>, \<open>getHours\<close>, \<open>getServices\<close> and \<open>getReviews\<close>: the rows of one
  business in the order asked of the store, or nothing at all when there is no row
  (\<open>items && items.length ? items : undefined\<close>). Strings are ordered byte by byte.
\<close>

definition getLocations :: "store \<Rightarrow> uuid \<Rightarrow> location_row list option" where
  "getLocations st businessId =
     (let items = sort_key l_name (filter (\<lambda>l. l_businessId l = businessId) (locations st))
      in if items \<noteq> [] then Some items else None)"

definition getHours :: "store \<Rightarrow> uuid \<Rightarrow> hour_row list option" where
  "getHours st businessId =
     (let items = sort_key h_dayOfWeek (filter (\<lambda>h. h_businessId h = businessId) (hours st))
      in if items \<noteq> [] then Some items else None)"

definition getServices :: "store \<Rightarrow> uuid \<Rightarrow> service_row list option" where
  "getServices st businessId =
     (let items = sort_key s_name (filter (\<lambda>s. s_businessId s = businessId) (services st))
      in if items \<noteq> [] then Some items else None)"

definition getReviews :: "store \<Rightarrow> uuid \<Rightarrow> review_row list option" where
  "getReviews st businessId =
     (let items = sort_key r_created_at (filter (\<lambda>r. r_businessId r = businessId) (reviews st))
      in if items \<noteq> [] then Some items else None)"

section \<open>Reading businesses\<close>

text \<open>
  The select list of both read handlers: every column of the business and, as
  \<open>avgRating\<close>, the correlated subquery
  \<open>select round(avg(rating),1) from reviews where reviews.businessId = businesses.id\<close>.
\<close>

definition avgRating_of :: "store \<Rightarrow> uuid \<Rightarrow> rat option" where
  "avgRating_of st businessId =
     sql_round1 (sql_avg (map r_rating (filter (\<lambda>r. r_businessId r = businessId) (reviews st))))"

definition select_businesses :: "store \<Rightarrow> (business_row \<times> rat option) list" where
  "select_businesses st = map (\<lambda>b. (b, avgRating_of st (b_id b))) (businesses st)"

text \<open>The record sent to the caller: the selected row with its four collections.\<close>

record business_json =
  j_business :: business_row
  j_avgRating :: "rat option"
  j_locations :: "location_row list option"
  j_hours :: "hour_row list option"
  j_services :: "service_row list option"
  j_reviews :: "review_row list option"

definition hydrate :: "store \<Rightarrow> business_row \<times> rat option \<Rightarrow> business_json" where
  "hydrate st r =
     \<lparr> j_business = fst r, j_avgRating = snd r,
       j_locations = getLocations st (b_id (fst r)),
       j_hours = getHours st (b_id (fst r)),
       j_services = getServices st (b_id (fst r)),
       j_reviews = getReviews st (b_id (fst r)) \<rparr>"

text \<open>\<open>GET /businesses/:businessId\<close>\<close>

definition get_business :: "store \<Rightarrow> uuid \<Rightarrow> business_json response" where
  "get_business st ident =
     (case map (hydrate st) (filter (\<lambda>r. b_id (fst r) = ident) (select_businesses st)) of
        [] \<Rightarrow> NotFound
      | b # _ \<Rightarrow> OK b)"

section \<open>Search\<close>

record search =
  q_name :: "string option"
  q_addressLine1 :: "string option"
  q_addressLine2 :: "string option"
  q_city :: "string option"
  q_state :: "string option"
  q_postal :: "string option"
  q_dayOfWeek :: "int option"
  q_hour :: "int option"
  q_service :: "string option"
  q_location :: "string option"
  q_rating :: "rat option"
  q_sortBy :: "string option"
  q_sortDirection :: "string option"

definition MAX_BUSINESS_PER_PAGE :: nat where
  "MAX_BUSINESS_PER_PAGE = 25"

text \<open>
  A comparison of an absent number is false in the language, so each range check fires
  only on a number that is there.
\<close>

definition out_of_range :: "int option \<Rightarrow> int \<Rightarrow> int \<Rightarrow> bool" where
  "out_of_range v lo hi = (case v of None \<Rightarrow> False | Some n \<Rightarrow> n < lo \<or> n > hi)"

text \<open>
  The checks at the head of \<open>POST /businesses/search\<close>, in the order of the handler.
  \<open>None\<close> is the 400 response; otherwise the request goes on with \<open>sortBy\<close> and
  \<open>sortDirection\<close> in lower case, or set to their defaults.
\<close>

definition validate_search :: "search \<Rightarrow> search option" where
  "validate_search q =
     (if (q_dayOfWeek q \<noteq> None \<and> q_hour q = None) \<or> (q_dayOfWeek q = None \<and> q_hour q \<noteq> None)
      then None
      else if out_of_range (q_dayOfWeek q) 0 6 then None
      else if out_of_range (q_hour q) 0 23 then None
      else if truthy (q_sortBy q) \<and>
              toLowerCase (the (q_sortBy q)) \<noteq> ''name'' \<and> toLowerCase (the (q_sortBy q)) \<noteq> ''rating''
      then None
      else
        (let q1 = q\<lparr>q_sortBy :=
                     Some (if truthy (q_sortBy q) then toLowerCase (the (q_sortBy q)) else ''name'')\<rparr>
         in if truthy (q_sortDirection q1) \<and>
               toLowerCase (the (q_sortDirection q1)) \<noteq> ''asc'' \<and>
               toLowerCase (the (q_sortDirection q1)) \<noteq> ''desc''
            then None
            else Some (q1\<lparr>q_sortDirection :=
                     Some (if truthy (q_sortDirection q1) then toLowerCase (the (q_sortDirection q1))
                           else ''asc'')\<rparr>)))"

text \<open>
  The clauses the where-builder adds, each only when its field is there; all of them
  must hold of a row.
\<close>

definition text_clause :: "string option \<Rightarrow> string option \<Rightarrow> bool" where
  "text_clause x col = (if truthy x then like_contains (the x) col else True)"

definition hours_clause :: "store \<Rightarrow> search \<Rightarrow> uuid \<Rightarrow> bool" where
  "hours_clause st q ident =
     (case (q_dayOfWeek q, q_hour q) of
        (Some d, Some h) \<Rightarrow>
          list_ex (\<lambda>x. h_dayOfWeek x = d \<and> h_open x \<le> h \<and> h_close x \<ge> h \<and> h_businessId x = ident)
            (hours st)
      | _ \<Rightarrow> True)"

definition service_clause :: "store \<Rightarrow> search \<Rightarrow> uuid \<Rightarrow> bool" where
  "service_clause st q ident =
     (if truthy (q_service q)
      then list_ex (\<lambda>x. like_contains (the (q_service q)) (Some (s_name x)) \<and> s_businessId x = ident)
             (services st)
      else True)"

definition location_clause :: "store \<Rightarrow> search \<Rightarrow> uuid \<Rightarrow> bool" where
  "location_clause st q ident =
     (if truthy (q_location q)
      then list_ex (\<lambda>x. like_contains (the (q_location q)) (Some (l_name x)) \<and> l_businessId x = ident)
             (locations st)
      else True)"

text \<open>\<open>avgRating >= rating\<close>; a NULL average satisfies no comparison.\<close>

definition rating_clause :: "search \<Rightarrow> rat option \<Rightarrow> bool" where
  "rating_clause q avg =
     (case q_rating q of None \<Rightarrow> True
      | Some r \<Rightarrow> (case avg of None \<Rightarrow> False | Some a \<Rightarrow> a \<ge> r))"

definition search_where :: "store \<Rightarrow> search \<Rightarrow> business_row \<times> rat option \<Rightarrow> bool" where
  "search_where st q r =
     (text_clause (q_name q) (Some (b_name (fst r))) \<and>
      text_clause (q_addressLine1 q) (b_addressLine1 (fst r)) \<and>
      text_clause (q_addressLine2 q) (b_addressLine2 (fst r)) \<and>
      text_clause (q_city q) (b_city (fst r)) \<and>
      text_clause (q_state q) (b_state (fst r)) \<and>
      text_clause (q_postal q) (b_postal (fst r)) \<and>
      hours_clause st q (b_id (fst r)) \<and>
      service_clause st q (b_id (fst r)) \<and>
      location_clause st q (b_id (fst r)) \<and>
      rating_clause q (snd r))"

text \<open>
  \<open>orderBy(sortBy === 'rating' ? 'avgRating' : sortBy, sortDirection)\<close>. NULL sorts
  before every number. Rows with the same key stay in the order of the table, in
  both directions.
\<close>

definition order_by :: "search \<Rightarrow> (business_row \<times> rat option) list \<Rightarrow> (business_row \<times> rat option) list" where
  "order_by q rows =
     (let ascending = (\<lambda>xs. if q_sortBy q = Some ''rating'' then sort_key snd xs
                             else sort_key (\<lambda>r. b_name (fst r)) xs)
      in if q_sortDirection q = Some ''desc'' then rev (ascending (rev rows)) else ascending rows)"

text \<open>The rows the search matches, and the page of them that the query returns.\<close>

definition search_matches :: "store \<Rightarrow> search \<Rightarrow> (business_row \<times> rat option) list" where
  "search_matches st q = filter (search_where st q) (select_businesses st)"

definition search_query :: "store \<Rightarrow> search \<Rightarrow> (business_row \<times> rat option) list" where
  "search_query st q = take MAX_BUSINESS_PER_PAGE (order_by q (search_matches st q))"

text \<open>
  \<open>POST /businesses/search\<close>. Beside the response the handler yields the number of
  queries it has sent to the store: one for the search and four for each row it
  hydrates, none when validation fails.
\<close>

definition search_businesses :: "store \<Rightarrow> search \<Rightarrow> business_json list response \<times> nat" where
  "search_businesses st body =
     (case validate_search body of
        None \<Rightarrow> (BadRequest, 0)
      | Some q \<Rightarrow>
          (let businesses = map (hydrate st) (search_query st q)
           in (if businesses \<noteq> [] then OK businesses else NotFound,
               1 + 4 * length businesses)))"

section \<open>Creating a business\<close>

text \<open>
  The body of \<open>POST /businesses\<close>: the scalar attributes of the Business schema and
  the four optional nested arrays. A nested item carries the attributes of its own
  schema; what is left out of an item is \<open>None\<close>. The comment of a review is left out,
  or \<open>null\<close>, or a string: the update of a review tells the three apart.
\<close>

record location_in =
  li_name :: "string option"

record hour_in =
  hi_dayOfWeek :: "int option"
  hi_open :: "int option"
  hi_close :: "int option"

record service_in =
  si_name :: "string option"

datatype comment_in = NoComment | NullComment | Comment string

record review_in =
  ri_rating :: "rat option"
  ri_comment :: comment_in

record business_body =
  p_name :: "string option"
  p_addressLine1 :: "string option"
  p_addressLine2 :: "string option"
  p_city :: "string option"
  p_state :: "string option"
  p_postal :: "string option"
  p_locations :: "location_in list option"
  p_hours :: "hour_in list option"
  p_services :: "service_in list option"
  p_reviews :: "review_in list option"

text \<open>
  \<open>addIds\<close> stamps every item of a non-empty list with a fresh id and the id of the
  business, and hands back an absent or empty list as it is. \<open>v4\<close> is the sequence of
  values that \<open>uuid.v4()\<close> returns during the request and \<open>k\<close> the number of calls
  made before.
\<close>

definition addIds :: "'a list option \<Rightarrow> uuid \<Rightarrow> (nat \<Rightarrow> uuid) \<Rightarrow> nat \<Rightarrow> (uuid \<times> uuid \<times> 'a) list option" where
  "addIds list businessId v4 k =
     (case list of None \<Rightarrow> None
      | Some xs \<Rightarrow>
          if xs \<noteq> [] then Some (map (\<lambda>(i, item). (v4 (k + i), businessId, item)) (enumerate 0 xs))
          else Some [])"

definition items_length :: "'a list option \<Rightarrow> nat" where
  "items_length list = (case list of None \<Rightarrow> 0 | Some xs \<Rightarrow> length xs)"

text \<open>
  Inserts. The store refuses a row (\<open>None\<close>) whose primary key is taken, that repeats
  a unique column or column pair, or that has no value for a \<open>notNullable\<close> column.
  It has no constraint on the values of \<open>dayOfWeek\<close>, \<open>open\<close>, \<open>close\<close> or \<open>rating\<close>.
\<close>

definition insert_business :: "store \<Rightarrow> business_row \<Rightarrow> store option" where
  "insert_business st row =
     (if list_ex (\<lambda>b. b_id b = b_id row \<or> b_name b = b_name row) (businesses st) then None
      else Some (st\<lparr>businesses := businesses st @ [row]\<rparr>))"

fun insert_locations :: "store \<Rightarrow> timestamp \<Rightarrow> (uuid \<times> uuid \<times> location_in) list \<Rightarrow> store option" where
  "insert_locations st now [] = Some st"
| "insert_locations st now ((i, b, item) # rest) =
     (case li_name item of None \<Rightarrow> None
      | Some n \<Rightarrow>
          if list_ex (\<lambda>l. l_id l = i \<or> (l_businessId l = b \<and> l_name l = n)) (locations st) then None
          else insert_locations
                 (st\<lparr>locations := locations st @
                    [\<lparr>l_id = i, l_businessId = b, l_name = n, l_created_at = now, l_updated_at = now\<rparr>]\<rparr>)
                 now rest)"

fun insert_hours :: "store \<Rightarrow> timestamp \<Rightarrow> (uuid \<times> uuid \<times> hour_in) list \<Rightarrow> store option" where
  "insert_hours st now [] = Some st"
| "insert_hours st now ((i, b, item) # rest) =
     (case (hi_dayOfWeek item, hi_open item, hi_close item) of
        (Some d, Some opn, Some cls) \<Rightarrow>
          if list_ex (\<lambda>h. h_id h = i \<or> (h_businessId h = b \<and> h_dayOfWeek h = d)) (hours st) then None
          else insert_hours
                 (st\<lparr>hours := hours st @
                    [\<lparr>h_id = i, h_businessId = b, h_dayOfWeek = d, h_open = opn, h_close = cls,
                      h_created_at = now, h_updated_at = now\<rparr>]\<rparr>)
                 now rest
      | _ \<Rightarrow> None)"

fun insert_services :: "store \<Rightarrow> timestamp \<Rightarrow> (uuid \<times> uuid \<times> service_in) list \<Rightarrow> store option" where
  "insert_services st now [] = Some st"
| "insert_services st now ((i, b, item) # rest) =
     (case si_name item of None \<Rightarrow> None
      | Some n \<Rightarrow>
          if list_ex (\<lambda>s. s_id s = i \<or> (s_businessId s = b \<and> s_name s = n)) (services st) then None
          else insert_services
                 (st\<lparr>services := services st @
                    [\<lparr>s_id = i, s_businessId = b, s_name = n, s_created_at = now, s_updated_at = now\<rparr>]\<rparr>)
                 now rest)"

fun insert_reviews :: "store \<Rightarrow> timestamp \<Rightarrow> (uuid \<times> uuid \<times> review_in) list \<Rightarrow> store option" where
  "insert_reviews st now [] = Some st"
| "insert_reviews st now ((i, b, item) # rest) =
     (case ri_rating item of None \<Rightarrow> None
      | Some x \<Rightarrow>
          if list_ex (\<lambda>r. r_id r = i) (reviews st) then None
          else insert_reviews
                 (st\<lparr>reviews := reviews st @
                    [\<lparr>r_id = i, r_businessId = b, r_rating = x,
                      r_comment = (case ri_comment item of Comment c \<Rightarrow> Some c | _ \<Rightarrow> None),
                      r_created_at = now, r_updated_at = now\<rparr>]\<rparr>)
                 now rest)"

text \<open>A batch insert runs only for a list that is there and not empty.\<close>

definition when_items :: "'a list option \<Rightarrow> (store \<Rightarrow> 'a list \<Rightarrow> store option) \<Rightarrow> store option \<Rightarrow> store option" where
  "when_items list ins trx =
     (case trx of None \<Rightarrow> None
      | Some st \<Rightarrow> (case list of None \<Rightarrow> Some st | Some xs \<Rightarrow> if xs \<noteq> [] then ins st xs else Some st))"

text \<open>
  \<open>POST /businesses\<close>. The five inserts run in one transaction: when one of them is
  refused nothing is kept and the response is 500. The handler checks the name of the
  business and nothing else of the body.
\<close>

definition post_business :: "store \<Rightarrow> timestamp \<Rightarrow> (nat \<Rightarrow> uuid) \<Rightarrow> business_body \<Rightarrow> uuid response \<times> store" where
  "post_business st now v4 body =
     (let ident = v4 0;
          k1 = 1;
          k2 = k1 + items_length (p_locations body);
          k3 = k2 + items_length (p_hours body);
          k4 = k3 + items_length (p_services body);
          locations = addIds (p_locations body) ident v4 k1;
          hours = addIds (p_hours body) ident v4 k2;
          services = addIds (p_services body) ident v4 k3;
          reviews = addIds (p_reviews body) ident v4 k4
      in if \<not> truthy (p_name body) then (BadRequest, st)
         else
           (let business = \<lparr> b_id = ident, b_name = the (p_name body),
                             b_addressLine1 = p_addressLine1 body, b_addressLine2 = p_addressLine2 body,
                             b_city = p_city body, b_state = p_state body, b_postal = p_postal body,
                             b_created_at = now, b_updated_at = now \<rparr>;
                t0 = insert_business st business;
                t1 = when_items locations (\<lambda>s xs. insert_locations s now xs) t0;
                t2 = when_items hours (\<lambda>s xs. insert_hours s now xs) t1;
                t3 = when_items services (\<lambda>s xs. insert_services s now xs) t2;
                t4 = when_items reviews (\<lambda>s xs. insert_reviews s now xs) t3
            in case t4 of None \<Rightarrow> (ServerError, st) | Some st' \<Rightarrow> (OK ident, st')))"

section \<open>Updating a business\<close>

text \<open>
  The body of \<open>PUT /businesses/:businessId\<close>. Beside the attributes of the schema the
  handler reads the key \<open>addressline2\<close>, so that key is part of the body.
\<close>

record business_put_body =
  u_name :: "string option"
  u_addressLine1 :: "string option"
  u_addressLine2 :: "string option"
  u_addressline2 :: "string option"
  u_city :: "string option"
  u_state :: "string option"
  u_postal :: "string option"

definition business_exists :: "store \<Rightarrow> uuid \<Rightarrow> bool" where
  "business_exists st ident = (\<not> length (filter (\<lambda>b. b_id b = ident) (businesses st)) < 1)"

text \<open>
  An update leaves a column alone whose new value is undefined. It is refused when it
  would give a row the name of another one.
\<close>

definition keep_or :: "string option \<Rightarrow> string option \<Rightarrow> string option" where
  "keep_or new old = (if truthy new then new else old)"

definition update_business :: "store \<Rightarrow> timestamp \<Rightarrow> uuid \<Rightarrow> business_put_body \<Rightarrow> store option" where
  "update_business st now ident body =
     (if truthy (u_name body) \<and>
         list_ex (\<lambda>t. b_id t = ident \<and>
                    list_ex (\<lambda>b. b_id b \<noteq> b_id t \<and> b_name b = the (u_name body)) (businesses st))
           (businesses st)
      then None
      else Some (st\<lparr>businesses :=
             map (\<lambda>b. if b_id b = ident
                        then b\<lparr> b_name := (if truthy (u_name body) then the (u_name body) else b_name b),
                                b_addressLine1 := keep_or (u_addressLine1 body) (b_addressLine1 b),
                                b_addressLine2 := keep_or (u_addressLine2 body) (b_addressLine2 b),
                                b_city := keep_or (u_city body) (b_city b),
                                b_state := keep_or (u_state body) (b_state b),
                                b_postal := keep_or (u_postal body) (b_postal b),
                                b_updated_at := now \<rparr>
                        else b)
               (businesses st)\<rparr>))"

definition put_business :: "store \<Rightarrow> timestamp \<Rightarrow> uuid \<Rightarrow> business_put_body \<Rightarrow> unit response \<times> store" where
  "put_business st now ident body =
     (if \<not> truthy (u_name body) \<and> \<not> truthy (u_addressLine1 body) \<and> \<not> truthy (u_addressline2 body) \<and>
         \<not> truthy (u_city body) \<and> \<not> truthy (u_state body) \<and> \<not> truthy (u_postal body)
      then (BadRequest, st)
      else if \<not> business_exists st ident then (NotFound, st)
      else (case update_business st now ident body of
              None \<Rightarrow> (ServerError, st)
            | Some st' \<Rightarrow> (OK (), st')))"

section \<open>Updating and deleting the children of a business\<close>

text \<open>
  The handlers \<open>PUT /:id\<close> and \<open>DELETE /:id\<close> of the four child routers. Each update
  and delete is \<open>where({id, businessId})\<close>. An update of hours, locations or services
  is refused by the store when a row it changes would repeat the unique pair of another
  row. The update of a review sets the comment when the body has one; for the comment
  \<open>null\<close> it sets it to \<open>db.raw('DEFAULT')\<close>, a statement that the store refuses
  whatever rows it matches.
\<close>

definition update_hours :: "store \<Rightarrow> uuid \<Rightarrow> uuid \<Rightarrow> int \<Rightarrow> int \<Rightarrow> int \<Rightarrow> store option" where
  "update_hours st ident businessId d opn cls =
     (if list_ex (\<lambda>t. h_id t = ident \<and> h_businessId t = businessId \<and>
                    list_ex (\<lambda>h. h_id h \<noteq> h_id t \<and> h_businessId h = h_businessId t \<and> h_dayOfWeek h = d)
                      (hours st))
           (hours st)
      then None
      else Some (st\<lparr>hours :=
             map (\<lambda>h. if h_id h = ident \<and> h_businessId h = businessId
                        then h\<lparr>h_dayOfWeek := d, h_open := opn, h_close := cls\<rparr> else h)
               (hours st)\<rparr>))"

definition put_hour :: "store \<Rightarrow> uuid \<Rightarrow> uuid \<Rightarrow> hour_in \<Rightarrow> unit response \<times> store" where
  "put_hour st businessId ident hour =
     (if hi_dayOfWeek hour = None \<or> out_of_range (hi_dayOfWeek hour) 0 6 then (BadRequest, st)
      else if hi_open hour = None \<or> out_of_range (hi_open hour) 0 23 then (BadRequest, st)
      else if hi_close hour = None \<or> out_of_range (hi_close hour) 0 23 then (BadRequest, st)
      else if the (hi_open hour) \<ge> the (hi_close hour) then (BadRequest, st)
      else if \<not> business_exists st businessId then (NotFound, st)
      else (case update_hours st ident businessId (the (hi_dayOfWeek hour)) (the (hi_open hour))
                   (the (hi_close hour)) of
              None \<Rightarrow> (ServerError, st)
            | Some st' \<Rightarrow> (OK (), st')))"

definition delete_hour :: "store \<Rightarrow> uuid \<Rightarrow> uuid \<Rightarrow> unit response \<times> store" where
  "delete_hour st businessId ident =
     (if \<not> business_exists st businessId then (NotFound, st)
      else (OK (), st\<lparr>hours :=
              filter (\<lambda>h. \<not> (h_id h = ident \<and> h_businessId h = businessId)) (hours st)\<rparr>))"

definition update_locations :: "store \<Rightarrow> timestamp \<Rightarrow> uuid \<Rightarrow> uuid \<Rightarrow> string \<Rightarrow> store option" where
  "update_locations st now ident businessId n =
     (if list_ex (\<lambda>t. l_id t = ident \<and> l_businessId t = businessId \<and>
                    list_ex (\<lambda>l. l_id l \<noteq> l_id t \<and> l_businessId l = l_businessId t \<and> l_name l = n)
                      (locations st))
           (locations st)
      then None
      else Some (st\<lparr>locations :=
             map (\<lambda>l. if l_id l = ident \<and> l_businessId l = businessId
                        then l\<lparr>l_name := n, l_updated_at := now\<rparr> else l)
               (locations st)\<rparr>))"

definition put_location :: "store \<Rightarrow> timestamp \<Rightarrow> uuid \<Rightarrow> uuid \<Rightarrow> location_in \<Rightarrow> unit response \<times> store" where
  "put_location st now businessId ident location =
     (if \<not> truthy (li_name location) then (BadRequest, st)
      else if \<not> business_exists st businessId then (NotFound, st)
      else (case update_locations st now ident businessId (the (li_name location)) of
              None \<Rightarrow> (ServerError, st)
            | Some st' \<Rightarrow> (OK (), st')))"

definition delete_location :: "store \<Rightarrow> uuid \<Rightarrow> uuid \<Rightarrow> unit response \<times> store" where
  "delete_location st businessId ident =
     (if \<not> business_exists st businessId then (NotFound, st)
      else (OK (), st\<lparr>locations :=
              filter (\<lambda>l. \<not> (l_id l = ident \<and> l_businessId l = businessId)) (locations st)\<rparr>))"

definition update_services :: "store \<Rightarrow> uuid \<Rightarrow> uuid \<Rightarrow> string \<Rightarrow> store option" where
  "update_services st ident businessId n =
     (if list_ex (\<lambda>t. s_id t = ident \<and> s_businessId t = businessId \<and>
                    list_ex (\<lambda>s. s_id s \<noteq> s_id t \<and> s_businessId s = s_businessId t \<and> s_name s = n)
                      (services st))
           (services st)
      then None
      else Some (st\<lparr>services :=
             map (\<lambda>s. if s_id s = ident \<and> s_businessId s = businessId then s\<lparr>s_name := n\<rparr> else s)
               (services st)\<rparr>))"

definition put_service :: "store \<Rightarrow> uuid \<Rightarrow> uuid \<Rightarrow> service_in \<Rightarrow> unit response \<times> store" where
  "put_service st businessId ident service =
     (if \<not> truthy (si_name service) then (BadRequest, st)
      else if \<not> business_exists st businessId then (NotFound, st)
      else (case update_services st ident businessId (the (si_name service)) of
              None \<Rightarrow> (ServerError, st)
            | Some st' \<Rightarrow> (OK (), st')))"

definition delete_service :: "store \<Rightarrow> uuid \<Rightarrow> uuid \<Rightarrow> unit response \<times> store" where
  "delete_service st businessId ident =
     (if \<not> business_exists st businessId then (NotFound, st)
      else (OK (), st\<lparr>services :=
              filter (\<lambda>s. \<not> (s_id s = ident \<and> s_businessId s = businessId)) (services st)\<rparr>))"

definition update_reviews :: "store \<Rightarrow> uuid \<Rightarrow> uuid \<Rightarrow> rat \<Rightarrow> comment_in \<Rightarrow> store option" where
  "update_reviews st ident businessId x comment =
     (if comment = NullComment then None
      else Some (st\<lparr>reviews :=
             map (\<lambda>r. if r_id r = ident \<and> r_businessId r = businessId
                        then r\<lparr>r_rating := x,
                               r_comment := (case comment of Comment c \<Rightarrow> Some c | _ \<Rightarrow> r_comment r)\<rparr>
                        else r)
               (reviews st)\<rparr>))"

definition put_review :: "store \<Rightarrow> uuid \<Rightarrow> uuid \<Rightarrow> review_in \<Rightarrow> unit response \<times> store" where
  "put_review st businessId ident review =
     (case ri_rating review of
        None \<Rightarrow> (BadRequest, st)
      | Some x \<Rightarrow>
          if x < 0 \<or> x > 5 then (BadRequest, st)
          else if \<not> business_exists st businessId then (NotFound, st)
          else (case update_reviews st ident businessId x (ri_comment review) of
                  None \<Rightarrow> (ServerError, st)
                | Some st' \<Rightarrow> (OK (), st')))"

definition delete_review :: "store \<Rightarrow> uuid \<Rightarrow> uuid \<Rightarrow> unit response \<times> store" where
  "delete_review st businessId ident =
     (if \<not> business_exists st businessId then (NotFound, st)
      else (OK (), st\<lparr>reviews :=
              filter (\<lambda>r. \<not> (r_id r = ident \<and> r_businessId r = businessId)) (reviews st)\<rparr>))"

section \<open>The seed data\<close>

text \<open>
  The three businesses of the seed file with their services, hours, locations and
  reviews, in the order the seed inserts them. The ids, random in the seed, are named
  here; every row is stamped with the time 0.
\<close>

definition seed_businesses :: "business_row list" where
  "seed_businesses =
     [\<lparr>b_id = ''b1'', b_name = ''Sample Business #1'', b_addressLine1 = Some ''1234 Fake St'', b_addressLine2 = Some ''Suite 500'', b_city = Some ''Denver'', b_state = Some ''CO'', b_postal = Some ''80210'', b_created_at = 0, b_updated_at = 0\<rparr>,
      \<lparr>b_id = ''b2'', b_name = ''Sample Business #2'', b_addressLine1 = Some ''1234 Foobar St'', b_addressLine2 = Some ''Suite 500'', b_city = Some ''Denver'', b_state = Some ''CO'', b_postal = Some ''80201'', b_created_at = 0, b_updated_at = 0\<rparr>,
      \<lparr>b_id = ''b3'', b_name = ''Sample Business #3'', b_addressLine1 = Some ''23456 5th Ave'', b_addressLine2 = Some ''Suite A'', b_city = Some ''Henderson'', b_state = Some ''CO'', b_postal = Some ''80640'', b_created_at = 0, b_updated_at = 0\<rparr>]"

definition seed_services :: "service_row list" where
  "seed_services =
     [\<lparr>s_id = ''b1-s1'', s_businessId = ''b1'', s_name = ''Maid Services'', s_created_at = 0, s_updated_at = 0\<rparr>,
      \<lparr>s_id = ''b1-s2'', s_businessId = ''b1'', s_name = ''House Cleaning'', s_created_at = 0, s_updated_at = 0\<rparr>,
      \<lparr>s_id = ''b1-s3'', s_businessId = ''b1'', s_name = ''Moving Services'', s_created_at = 0, s_updated_at = 0\<rparr>,
      \<lparr>s_id = ''b2-s1'', s_businessId = ''b2'', s_name = ''Maid Services'', s_created_at = 0, s_updated_at = 0\<rparr>,
      \<lparr>s_id = ''b2-s2'', s_businessId = ''b2'', s_name = ''House Cleaning'', s_created_at = 0, s_updated_at = 0\<rparr>,
      \<lparr>s_id = ''b2-s3'', s_businessId = ''b2'', s_name = ''Moving Services'', s_created_at = 0, s_updated_at = 0\<rparr>,
      \<lparr>s_id = ''b2-s4'', s_businessId = ''b2'', s_name = ''Packing'', s_created_at = 0, s_updated_at = 0\<rparr>,
      \<lparr>s_id = ''b3-s1'', s_businessId = ''b3'', s_name = ''Packing'', s_created_at = 0, s_updated_at = 0\<rparr>,
      \<lparr>s_id = ''b3-s2'', s_businessId = ''b3'', s_name = ''Moving Services'', s_created_at = 0, s_updated_at = 0\<rparr>]"

definition seed_hours :: "hour_row list" where
  "seed_hours =
     [\<lparr>h_id = ''b1-h1'', h_businessId = ''b1'', h_dayOfWeek = 1, h_open = 9, h_close = 17, h_created_at = 0, h_updated_at = 0\<rparr>,
      \<lparr>h_id = ''b1-h2'', h_businessId = ''b1'', h_dayOfWeek = 2, h_open = 9, h_close = 17, h_created_at = 0, h_updated_at = 0\<rparr>,
      \<lparr>h_id = ''b1-h3'', h_businessId = ''b1'', h_dayOfWeek = 3, h_open = 9, h_close = 17, h_created_at = 0, h_updated_at = 0\<rparr>,
      \<lparr>h_id = ''b1-h4'', h_businessId = ''b1'', h_dayOfWeek = 4, h_open = 9, h_close = 17, h_created_at = 0, h_updated_at = 0\<rparr>,
      \<lparr>h_id = ''b1-h5'', h_businessId = ''b1'', h_dayOfWeek = 5, h_open = 9, h_close = 17, h_created_at = 0, h_updated_at = 0\<rparr>,
      \<lparr>h_id = ''b2-h1'', h_businessId = ''b2'', h_dayOfWeek = 1, h_open = 10, h_close = 19, h_created_at = 0, h_updated_at = 0\<rparr>,
      \<lparr>h_id = ''b2-h2'', h_businessId = ''b2'', h_dayOfWeek = 2, h_open = 9, h_close = 19, h_created_at = 0, h_updated_at = 0\<rparr>,
      \<lparr>h_id = ''b2-h3'', h_businessId = ''b2'', h_dayOfWeek = 3, h_open = 10, h_close = 19, h_created_at = 0, h_updated_at = 0\<rparr>,
      \<lparr>h_id = ''b2-h4'', h_businessId = ''b2'', h_dayOfWeek = 4, h_open = 9, h_close = 19, h_created_at = 0, h_updated_at = 0\<rparr>,
      \<lparr>h_id = ''b2-h5'', h_businessId = ''b2'', h_dayOfWeek = 5, h_open = 10, h_close = 19, h_created_at = 0, h_updated_at = 0\<rparr>,
      \<lparr>h_id = ''b2-h6'', h_businessId = ''b2'', h_dayOfWeek = 6, h_open = 9, h_close = 12, h_created_at = 0, h_updated_at = 0\<rparr>,
      \<lparr>h_id = ''b3-h1'', h_businessId = ''b3'', h_dayOfWeek = 1, h_open = 8, h_close = 18, h_created_at = 0, h_updated_at = 0\<rparr>,
      \<lparr>h_id = ''b3-h2'', h_businessId = ''b3'', h_dayOfWeek = 2, h_open = 8, h_close = 18, h_created_at = 0, h_updated_at = 0\<rparr>,
      \<lparr>h_id = ''b3-h3'', h_businessId = ''b3'', h_dayOfWeek = 3, h_open = 8, h_close = 18, h_created_at = 0, h_updated_at = 0\<rparr>,
      \<lparr>h_id = ''b3-h4'', h_businessId = ''b3'', h_dayOfWeek = 4, h_open = 8, h_close = 18, h_created_at = 0, h_updated_at = 0\<rparr>,
      \<lparr>h_id = ''b3-h5'', h_businessId = ''b3'', h_dayOfWeek = 5, h_open = 8, h_close = 18, h_created_at = 0, h_updated_at = 0\<rparr>,
      \<lparr>h_id = ''b3-h6'', h_businessId = ''b3'', h_dayOfWeek = 6, h_open = 8, h_close = 18, h_created_at = 0, h_updated_at = 0\<rparr>]"

definition seed_locations :: "location_row list" where
  "seed_locations =
     [\<lparr>l_id = ''b1-l1'', l_businessId = ''b1'', l_name = ''Denver'', l_created_at = 0, l_updated_at = 0\<rparr>,
      \<lparr>l_id = ''b1-l2'', l_businessId = ''b1'', l_name = ''Lakewood'', l_created_at = 0, l_updated_at = 0\<rparr>,
      \<lparr>l_id = ''b1-l3'', l_businessId = ''b1'', l_name = ''Thorton'', l_created_at = 0, l_updated_at = 0\<rparr>,
      \<lparr>l_id = ''b1-l4'', l_businessId = ''b1'', l_name = ''Golden'', l_created_at = 0, l_updated_at = 0\<rparr>,
      \<lparr>l_id = ''b1-l5'', l_businessId = ''b1'', l_name = ''Arvada'', l_created_at = 0, l_updated_at = 0\<rparr>,
      \<lparr>l_id = ''b1-l6'', l_businessId = ''b1'', l_name = ''Centennial'', l_created_at = 0, l_updated_at = 0\<rparr>,
      \<lparr>l_id = ''b1-l7'', l_businessId = ''b1'', l_name = ''Parker'', l_created_at = 0, l_updated_at = 0\<rparr>,
      \<lparr>l_id = ''b2-l1'', l_businessId = ''b2'', l_name = ''Denver'', l_created_at = 0, l_updated_at = 0\<rparr>,
      \<lparr>l_id = ''b2-l2'', l_businessId = ''b2'', l_name = ''Thorton'', l_created_at = 0, l_updated_at = 0\<rparr>,
      \<lparr>l_id = ''b2-l3'', l_businessId = ''b2'', l_name = ''Golden'', l_created_at = 0, l_updated_at = 0\<rparr>,
      \<lparr>l_id = ''b2-l4'', l_businessId = ''b2'', l_name = ''Arvada'', l_created_at = 0, l_updated_at = 0\<rparr>,
      \<lparr>l_id = ''b2-l5'', l_businessId = ''b2'', l_name = ''Centennial'', l_created_at = 0, l_updated_at = 0\<rparr>,
      \<lparr>l_id = ''b2-l6'', l_businessId = ''b2'', l_name = ''Parker'', l_created_at = 0, l_updated_at = 0\<rparr>,
      \<lparr>l_id = ''b3-l1'', l_businessId = ''b3'', l_name = ''Denver'', l_created_at = 0, l_updated_at = 0\<rparr>,
      \<lparr>l_id = ''b3-l2'', l_businessId = ''b3'', l_name = ''Commerce City'', l_created_at = 0, l_updated_at = 0\<rparr>,
      \<lparr>l_id = ''b3-l3'', l_businessId = ''b3'', l_name = ''Thorton'', l_created_at = 0, l_updated_at = 0\<rparr>,
      \<lparr>l_id = ''b3-l4'', l_businessId = ''b3'', l_name = ''Henderson'', l_created_at = 0, l_updated_at = 0\<rparr>,
      \<lparr>l_id = ''b3-l5'', l_businessId = ''b3'', l_name = ''Northglenn'', l_created_at = 0, l_updated_at = 0\<rparr>]"

definition seed_reviews :: "review_row list" where
  "seed_reviews =
     [\<lparr>r_id = ''b1-r1'', r_businessId = ''b1'', r_rating = 9 / 2, r_comment = Some ''Use them weekly to clean our home. Do a great job every time'', r_created_at = 0, r_updated_at = 0\<rparr>,
      \<lparr>r_id = ''b1-r2'', r_businessId = ''b1'', r_rating = 4, r_comment = Some ''Helped us move homes, very timely'', r_created_at = 0, r_updated_at = 0\<rparr>,
      \<lparr>r_id = ''b1-r3'', r_businessId = ''b1'', r_rating = 4, r_comment = Some ''On time, did a good job'', r_created_at = 0, r_updated_at = 0\<rparr>,
      \<lparr>r_id = ''b2-r1'', r_businessId = ''b2'', r_rating = 4, r_comment = Some ''Move out cleaning'', r_created_at = 0, r_updated_at = 0\<rparr>,
      \<lparr>r_id = ''b2-r2'', r_businessId = ''b2'', r_rating = 2, r_comment = Some ''Broke our dishes because they didn't pack right'', r_created_at = 0, r_updated_at = 0\<rparr>,
      \<lparr>r_id = ''b2-r3'', r_businessId = ''b2'', r_rating = 5, r_comment = None, r_created_at = 0, r_updated_at = 0\<rparr>,
      \<lparr>r_id = ''b3-r1'', r_businessId = ''b3'', r_rating = 5, r_comment = Some ''Helped us move across the country, they're great'', r_created_at = 0, r_updated_at = 0\<rparr>]"

definition seed_store :: store where
  "seed_store =
     \<lparr> businesses = seed_businesses, locations = seed_locations, hours = seed_hours,
       services = seed_services, reviews = seed_reviews \<rparr>"

text \<open>The search request with no field at all.\<close>

definition no_filters :: search where
  "no_filters =
     \<lparr> q_name = None, q_addressLine1 = None, q_addressLine2 = None, q_city = None, q_state = None,
       q_postal = None, q_dayOfWeek = None, q_hour = None, q_service = None, q_location = None,
       q_rating = None, q_sortBy = None, q_sortDirection = None \<rparr>"

text \<open>More stores and requests that the examples below run on.\<close>

definition empty_store :: store where
  "empty_store = \<lparr> businesses = [], locations = [], hours = [], services = [], reviews = [] \<rparr>"

definition seed_without_b3_reviews :: store where
  "seed_without_b3_reviews =
     seed_store\<lparr>reviews := filter (\<lambda>r. r_businessId r \<noteq> ''b3'') (reviews seed_store)\<rparr>"

definition crowd :: "nat \<Rightarrow> store" where
  "crowd n =
     empty_store\<lparr>businesses :=
       map (\<lambda>i. \<lparr> b_id = replicate (Suc i) CHR ''i'', b_name = replicate (Suc i) CHR ''n'',
                   b_addressLine1 = None, b_addressLine2 = None, b_city = None, b_state = None,
                   b_postal = None, b_created_at = i, b_updated_at = i \<rparr>) [0..<n]\<rparr>"

definition crowd_open :: "nat \<Rightarrow> store" where
  "crowd_open n =
     (crowd n)\<lparr>hours :=
       map (\<lambda>i. \<lparr> h_id = replicate (Suc i) CHR ''h'', h_businessId = replicate (Suc i) CHR ''i'',
                   h_dayOfWeek = 6, h_open = 8, h_close = 18, h_created_at = i, h_updated_at = i \<rparr>)
         [0..<n]\<rparr>"

definition business_with_bad_hour :: business_body where
  "business_with_bad_hour =
     \<lparr> p_name = Some ''ZZZ'', p_addressLine1 = None, p_addressLine2 = None, p_city = None,
       p_state = None, p_postal = None, p_locations = None,
       p_hours = Some [\<lparr>hi_dayOfWeek = Some 1, hi_open = Some 13, hi_close = Some 8\<rparr>],
       p_services = None, p_reviews = None \<rparr>"

definition only_addressLine2 :: "string \<Rightarrow> business_put_body" where
  "only_addressLine2 x =
     \<lparr> u_name = None, u_addressLine1 = None, u_addressLine2 = Some x, u_addressline2 = None,
       u_city = None, u_state = None, u_postal = None \<rparr>"

section \<open>The specification's words\<close>

text \<open>
  A fetched collection: the rows of the business are \<open>rows\<close>; the result is absent when
  there are none, and otherwise holds exactly those rows, ordered by the key.
\<close>

definition rows_of :: "('r \<Rightarrow> uuid) \<Rightarrow> 'r list \<Rightarrow> uuid \<Rightarrow> 'r list" where
  "rows_of owner table businessId = filter (\<lambda>r. owner r = businessId) table"

definition fetched :: "('r \<Rightarrow> 'k::linorder) \<Rightarrow> 'r list \<Rightarrow> 'r list option \<Rightarrow> bool" where
  "fetched key rows result =
     (case result of
        None \<Rightarrow> rows = []
      | Some items \<Rightarrow> items \<noteq> [] \<and> sorted (map key items) \<and> mset items = mset rows)"

text \<open>
  The average rating: the arithmetic mean of the review ratings of the business, rounded
  to one decimal place (a number of tenths at most a twentieth away from the mean), and
  absent when the business has no review.
\<close>

definition ratings_of :: "store \<Rightarrow> uuid \<Rightarrow> rat list" where
  "ratings_of st businessId = map r_rating (rows_of r_businessId (reviews st) businessId)"

definition mean :: "rat list \<Rightarrow> rat" where
  "mean xs = sum_list xs / of_nat (length xs)"

definition rounded_to_one_decimal :: "rat \<Rightarrow> rat \<Rightarrow> bool" where
  "rounded_to_one_decimal v x \<longleftrightarrow> v * 10 = of_int \<lfloor>v * 10\<rfloor> \<and> \<bar>v - x\<bar> \<le> 1 / 20"

definition avgRating_spec :: "store \<Rightarrow> uuid \<Rightarrow> rat option \<Rightarrow> bool" where
  "avgRating_spec st businessId a =
     (if ratings_of st businessId = [] then a = None
      else (case a of None \<Rightarrow> False
            | Some v \<Rightarrow> rounded_to_one_decimal v (mean (ratings_of st businessId))))"

definition has_reviews :: "store \<Rightarrow> uuid \<Rightarrow> bool" where
  "has_reviews st businessId = list_ex (\<lambda>r. r_businessId r = businessId) (reviews st)"

text \<open>A rating that is higher than the average rating of every business.\<close>

definition rating_above_all :: "store \<Rightarrow> rat \<Rightarrow> bool" where
  "rating_above_all st x =
     list_all (\<lambda>b. case avgRating_of st (b_id b) of None \<Rightarrow> True | Some a \<Rightarrow> a < x) (businesses st)"

text \<open>
  The business has an Hour row of the given day whose interval holds the given hour;
  and the other filters of a search, which are the search without its day and hour.
\<close>

definition open_at :: "store \<Rightarrow> uuid \<Rightarrow> int \<Rightarrow> int \<Rightarrow> bool" where
  "open_at st businessId d h =
     list_ex (\<lambda>x. h_businessId x = businessId \<and> h_dayOfWeek x = d \<and> h_open x \<le> h \<and> h \<le> h_close x)
       (hours st)"

definition other_filters :: "store \<Rightarrow> search \<Rightarrow> business_row \<times> rat option \<Rightarrow> bool" where
  "other_filters st q r = search_where st (q\<lparr>q_dayOfWeek := None, q_hour := None\<rparr>) r"

text \<open>
  The businesses that pass the other filters and are open at the day and hour, in the
  order of the table; and the businesses that a response holds.
\<close>

definition open_and_filtered :: "store \<Rightarrow> search \<Rightarrow> int \<Rightarrow> int \<Rightarrow> (business_row \<times> rat option) list" where
  "open_and_filtered st q d h =
     filter (\<lambda>r. other_filters st q r \<and> open_at st (b_id (fst r)) d h) (select_businesses st)"

definition in_response :: "'a list response \<Rightarrow> 'a \<Rightarrow> bool" where
  "in_response resp x = (case resp of OK xs \<Rightarrow> x \<in> set xs | _ \<Rightarrow> False)"

text \<open>
  The requests that search refuses: exactly one of dayOfWeek and hour, a dayOfWeek
  outside 0..6, an hour outside 0..23, a non-empty sortBy other than name and rating, a
  non-empty sortDirection other than asc and desc, the last two without regard to case.
  And the value a sort field goes on with: its default when it is absent or empty.
\<close>

definition invalid_search :: "search \<Rightarrow> bool" where
  "invalid_search body \<longleftrightarrow>
     (q_dayOfWeek body = None) \<noteq> (q_hour body = None) \<or>
     (case q_dayOfWeek body of None \<Rightarrow> False | Some d \<Rightarrow> d < 0 \<or> 6 < d) \<or>
     (case q_hour body of None \<Rightarrow> False | Some h \<Rightarrow> h < 0 \<or> 23 < h) \<or>
     (case q_sortBy body of None \<Rightarrow> False
      | Some s \<Rightarrow> s \<noteq> [] \<and> toLowerCase s \<noteq> ''name'' \<and> toLowerCase s \<noteq> ''rating'') \<or>
     (case q_sortDirection body of None \<Rightarrow> False
      | Some s \<Rightarrow> s \<noteq> [] \<and> toLowerCase s \<noteq> ''asc'' \<and> toLowerCase s \<noteq> ''desc'')"

definition lowered_or :: "string option \<Rightarrow> string \<Rightarrow> string" where
  "lowered_or v d = (case v of None \<Rightarrow> d | Some s \<Rightarrow> if s = [] then d else toLowerCase s)"

text \<open>
  No row of a child table has the given id under the given business; and the bodies
  that the update handlers of hours and reviews accept. The handler of reviews validates
  the rating only.
\<close>

definition no_hour :: "store \<Rightarrow> uuid \<Rightarrow> uuid \<Rightarrow> bool" where
  "no_hour st businessId ident = (\<not> list_ex (\<lambda>h. h_id h = ident \<and> h_businessId h = businessId) (hours st))"

definition no_location :: "store \<Rightarrow> uuid \<Rightarrow> uuid \<Rightarrow> bool" where
  "no_location st businessId ident =
     (\<not> list_ex (\<lambda>l. l_id l = ident \<and> l_businessId l = businessId) (locations st))"

definition no_service :: "store \<Rightarrow> uuid \<Rightarrow> uuid \<Rightarrow> bool" where
  "no_service st businessId ident =
     (\<not> list_ex (\<lambda>s. s_id s = ident \<and> s_businessId s = businessId) (services st))"

definition no_review :: "store \<Rightarrow> uuid \<Rightarrow> uuid \<Rightarrow> bool" where
  "no_review st businessId ident =
     (\<not> list_ex (\<lambda>r. r_id r = ident \<and> r_businessId r = businessId) (reviews st))"

definition valid_hour :: "hour_in \<Rightarrow> bool" where
  "valid_hour hour =
     (case (hi_dayOfWeek hour, hi_open hour, hi_close hour) of
        (Some d, Some opn, Some cls) \<Rightarrow>
          0 \<le> d \<and> d \<le> 6 \<and> 0 \<le> opn \<and> opn \<le> 23 \<and> 0 \<le> cls \<and> cls \<le> 23 \<and> opn < cls
      | _ \<Rightarrow> False)"

definition valid_review :: "review_in \<Rightarrow> bool" where
  "valid_review review = (case ri_rating review of None \<Rightarrow> False | Some x \<Rightarrow> 0 \<le> x \<and> x \<le> 5)"

section \<open>Properties\<close>

lemma fetched_sort_key:
  "fetched key rows (let items = sort_key key rows in if items \<noteq> [] then Some items else None)"
proof -
  have "(sort_key key rows = []) = (rows = [])"
    by (metis length_sort length_0_conv)
  then show ?thesis
    by (simp add: fetched_def Let_def)
qed

lemma getLocations_fetched:
  "fetched l_name (rows_of l_businessId (locations st) businessId) (getLocations st businessId)"
  unfolding getLocations_def rows_of_def by (rule fetched_sort_key)

lemma getHours_fetched:
  "fetched h_dayOfWeek (rows_of h_businessId (hours st) businessId) (getHours st businessId)"
  unfolding getHours_def rows_of_def by (rule fetched_sort_key)

lemma getServices_fetched:
  "fetched s_name (rows_of s_businessId (services st) businessId) (getServices st businessId)"
  unfolding getServices_def rows_of_def by (rule fetched_sort_key)

lemma getReviews_fetched:
  "fetched r_created_at (rows_of r_businessId (reviews st) businessId) (getReviews st businessId)"
  unfolding getReviews_def rows_of_def by (rule fetched_sort_key)

text \<open>
  Claim C8. For every business, hydration attaches the locations and the services of
  that business in ascending order of name, its hours in ascending order of dayOfWeek
  and its reviews in ascending order of creation time; each collection holds exactly
  the rows of that business when there is at least one, and is absent, never an empty
  list, when there is none.
\<close>

theorem hydration_collections:
  "fetched l_name (rows_of l_businessId (locations st) (b_id (fst r))) (j_locations (hydrate st r)) \<and>
   fetched h_dayOfWeek (rows_of h_businessId (hours st) (b_id (fst r))) (j_hours (hydrate st r)) \<and>
   fetched s_name (rows_of s_businessId (services st) (b_id (fst r))) (j_services (hydrate st r)) \<and>
   fetched r_created_at (rows_of r_businessId (reviews st) (b_id (fst r))) (j_reviews (hydrate st r)) \<and>
   j_locations (hydrate st r) \<noteq> Some [] \<and> j_hours (hydrate st r) \<noteq> Some [] \<and>
   j_services (hydrate st r) \<noteq> Some [] \<and> j_reviews (hydrate st r) \<noteq> Some []"
proof -
  have nonempty: "res \<noteq> Some []" if "fetched key rows res"
    for key :: "'r \<Rightarrow> 'k::linorder" and rows res
    using that by (auto simp: fetched_def)
  have l: "fetched l_name (rows_of l_businessId (locations st) (b_id (fst r))) (j_locations (hydrate st r))"
    by (simp add: hydrate_def getLocations_fetched)
  have h: "fetched h_dayOfWeek (rows_of h_businessId (hours st) (b_id (fst r))) (j_hours (hydrate st r))"
    by (simp add: hydrate_def getHours_fetched)
  have s: "fetched s_name (rows_of s_businessId (services st) (b_id (fst r))) (j_services (hydrate st r))"
    by (simp add: hydrate_def getServices_fetched)
  have v: "fetched r_created_at (rows_of r_businessId (reviews st) (b_id (fst r))) (j_reviews (hydrate st r))"
    by (simp add: hydrate_def getReviews_fetched)
  from l h s v nonempty[OF l] nonempty[OF h] nonempty[OF s] nonempty[OF v]
  show ?thesis by blast
qed

lemma round_nonneg:
  fixes x :: rat
  shows "rounded_to_one_decimal (of_int \<lfloor>x * 10 + 1 / 2\<rfloor> / 10) x"
proof -
  define k where "k = \<lfloor>x * 10 + 1 / 2\<rfloor>"
  have lo: "of_int k \<le> x * 10 + 1 / 2" unfolding k_def by (rule of_int_floor_le)
  have hi: "x * 10 + 1 / 2 < of_int k + 1" unfolding k_def by linarith
  have a: "\<bar>of_int k / 10 - x\<bar> \<le> 1 / 20"
    using lo hi by linarith
  have b: "of_int k / 10 * 10 = (of_int \<lfloor>of_int k / 10 * (10::rat)\<rfloor> :: rat)"
    by simp
  from a b show ?thesis
    unfolding rounded_to_one_decimal_def k_def by blast
qed

lemma round_neg:
  fixes x :: rat
  shows "rounded_to_one_decimal (- (of_int \<lfloor>- x * 10 + 1 / 2\<rfloor> / 10)) x"
proof -
  define k where "k = \<lfloor>- x * 10 + 1 / 2\<rfloor>"
  have lo: "of_int k \<le> - x * 10 + 1 / 2" unfolding k_def by (rule of_int_floor_le)
  have hi: "- x * 10 + 1 / 2 < of_int k + 1" unfolding k_def by linarith
  have a: "\<bar>- (of_int k / 10) - x\<bar> \<le> 1 / 20"
    using lo hi by linarith
  have "- (of_int k / 10) * 10 = (of_int (- k) :: rat)" by simp
  then have b: "- (of_int k / 10) * 10 = (of_int \<lfloor>- (of_int k / 10) * (10::rat)\<rfloor> :: rat)"
    by (metis floor_of_int)
  from a b show ?thesis
    unfolding rounded_to_one_decimal_def k_def by blast
qed

lemma sql_round1_avg:
  assumes "xs \<noteq> []"
  shows "\<exists>v. sql_round1 (sql_avg xs) = Some v \<and> rounded_to_one_decimal v (mean xs)"
proof -
  define m where "m = sum_list xs / of_nat (length xs)"
  have avg: "sql_avg xs = Some m" "mean xs = m"
    using assms by (simp_all add: sql_avg_def mean_def m_def)
  show ?thesis
  proof (cases "0 \<le> m")
    case True
    then have "sql_round1 (Some m) = Some (of_int \<lfloor>m * 10 + 1 / 2\<rfloor> / 10)"
      unfolding sql_round1_def by (simp only: option.case if_True)
    with round_nonneg[of m] avg show ?thesis by metis
  next
    case False
    then have "sql_round1 (Some m) = Some (- (of_int \<lfloor>- m * 10 + 1 / 2\<rfloor> / 10))"
      unfolding sql_round1_def by (simp only: option.case if_False)
    with round_neg[of m] avg show ?thesis by metis
  qed
qed

lemma avgRating_of_spec: "avgRating_spec st businessId (avgRating_of st businessId)"
proof (cases "ratings_of st businessId = []")
  case True
  then show ?thesis
    by (simp add: avgRating_spec_def avgRating_of_def ratings_of_def rows_of_def sql_avg_def
        sql_round1_def)
next
  case False
  from sql_round1_avg[OF this] obtain v where
    "sql_round1 (sql_avg (ratings_of st businessId)) = Some v"
    "rounded_to_one_decimal v (mean (ratings_of st businessId))" by blast
  with False show ?thesis
    by (simp add: avgRating_spec_def avgRating_of_def ratings_of_def rows_of_def)
qed

lemma select_businesses_avg:
  "r \<in> set (select_businesses st) \<Longrightarrow> snd r = avgRating_of st (b_id (fst r))"
  by (auto simp: select_businesses_def)

lemma search_query_subset: "set (search_query st q) \<subseteq> set (search_matches st q)"
  unfolding search_query_def order_by_def Let_def
  by (auto dest!: in_set_takeD)

lemma search_matches_subset: "set (search_matches st q) \<subseteq> set (select_businesses st)"
  by (auto simp: search_matches_def)

lemma hydrate_sel [simp]:
  "j_business (hydrate st r) = fst r" "j_avgRating (hydrate st r) = snd r"
  by (simp_all add: hydrate_def)

lemma get_business_row:
  assumes "get_business st ident = OK b"
  obtains r where "r \<in> set (select_businesses st)" "b = hydrate st r" "b_id (fst r) = ident"
proof -
  from assms obtain r rs where
    eq: "filter (\<lambda>r. b_id (fst r) = ident) (select_businesses st) = r # rs" and b: "b = hydrate st r"
    by (auto simp: get_business_def split: list.splits)
  have "r \<in> set (filter (\<lambda>r. b_id (fst r) = ident) (select_businesses st))"
    by (simp add: eq)
  then have "r \<in> set (select_businesses st)" "b_id (fst r) = ident" by auto
  with b that show thesis by blast
qed

lemma search_businesses_row:
  assumes "fst (search_businesses st body) = OK bs" "b \<in> set bs"
  obtains q r where "validate_search body = Some q" "r \<in> set (search_query st q)" "b = hydrate st r"
  using assms
  by (auto simp: search_businesses_def Let_def split: option.splits if_splits)

text \<open>
  Claim C2. The avgRating of the record that get-by-id returns, and of every record
  that search returns, is the arithmetic mean of the ratings of that business's reviews
  rounded to one decimal place when the business has a review, and is absent when it
  has none.
\<close>

theorem avgRating_rounded_mean:
  "(get_business st ident = OK b \<longrightarrow> avgRating_spec st ident (j_avgRating b)) \<and>
   (fst (search_businesses st body) = OK bs \<longrightarrow>
      (\<forall>b \<in> set bs. avgRating_spec st (b_id (j_business b)) (j_avgRating b)))"
proof (intro conjI impI ballI)
  assume "get_business st ident = OK b"
  then obtain r where "r \<in> set (select_businesses st)" "b = hydrate st r" "b_id (fst r) = ident"
    by (rule get_business_row)
  then show "avgRating_spec st ident (j_avgRating b)"
    using avgRating_of_spec[of st ident] by (simp add: select_businesses_avg)
next
  fix b assume "fst (search_businesses st body) = OK bs" "b \<in> set bs"
  then obtain q r where r: "r \<in> set (search_query st q)" "b = hydrate st r"
    by (rule search_businesses_row)
  then have "r \<in> set (select_businesses st)"
    using search_query_subset search_matches_subset by blast
  then show "avgRating_spec st (b_id (j_business b)) (j_avgRating b)"
    using r avgRating_of_spec[of st "b_id (fst r)"] by (simp add: select_businesses_avg)
qed

theorem avgRating_rounded_mean_witness:
  "get_business seed_store ''b2'' = OK (hydrate seed_store (seed_businesses ! 1, Some (37 / 10))) \<and>
   avgRating_spec seed_store ''b2'' (Some (37 / 10)) \<and>
   fst (search_businesses seed_store no_filters) =
     OK (map (hydrate seed_store) (select_businesses seed_store)) \<and>
   avgRating_spec seed_store ''b3'' (Some 5)"
proof -
  let ?b2 = "hydrate seed_store (seed_businesses ! 1, Some (37 / 10))"
  let ?b3 = "hydrate seed_store (seed_businesses ! 2, Some 5)"
  let ?bs = "map (hydrate seed_store) (select_businesses seed_store)"
  have g: "get_business seed_store ''b2'' = OK ?b2" by code_simp
  have s: "fst (search_businesses seed_store no_filters) = OK ?bs" by code_simp
  have m: "?b3 \<in> set ?bs" by code_simp
  have i: "b_id (j_business ?b3) = ''b3''" by code_simp
  from avgRating_rounded_mean[of seed_store "''b2''" ?b2 no_filters ?bs] g s m
  have "avgRating_spec seed_store ''b2'' (j_avgRating ?b2)"
    "avgRating_spec seed_store (b_id (j_business ?b3)) (j_avgRating ?b3)"
    by blast+
  with g s i show ?thesis by simp
qed

lemma validate_search_fields:
  assumes "validate_search body = Some q"
  shows "q = body\<lparr>q_sortBy := q_sortBy q, q_sortDirection := q_sortDirection q\<rparr>"
  using assms
  by (auto simp: validate_search_def Let_def split: if_splits)

lemma validate_search_rating: "validate_search body = Some q \<Longrightarrow> q_rating q = q_rating body"
  by (drule validate_search_fields, erule ssubst) simp

lemma validate_search_hours:
  "validate_search body = Some q \<Longrightarrow> q_dayOfWeek q = q_dayOfWeek body \<and> q_hour q = q_hour body"
  by (drule validate_search_fields, erule ssubst) simp

lemma set_order_by [simp]: "set (order_by q rows) = set rows"
  by (simp add: order_by_def Let_def)

lemma length_order_by [simp]: "length (order_by q rows) = length rows"
  by (simp add: order_by_def Let_def)

lemma search_query_row:
  assumes "r \<in> set (search_query st q)"
  shows "r \<in> set (select_businesses st)" "search_where st q r"
proof -
  from assms have "r \<in> set (order_by q (search_matches st q))"
    unfolding search_query_def by (rule in_set_takeD)
  then show "r \<in> set (select_businesses st)" "search_where st q r"
    by (simp_all add: search_matches_def)
qed

lemma avgRating_of_None: "\<not> has_reviews st businessId \<Longrightarrow> avgRating_of st businessId = None"
  by (simp add: has_reviews_def avgRating_of_def sql_avg_def sql_round1_def list_ex_iff filter_empty_conv)

text \<open>
  Claim C6. When a rating is supplied to search, every business in the result has an
  average rating that is defined and at least the given value, and has a review: a
  business with no review is in no result, whatever the value, 0 included.
\<close>

theorem rating_filter:
  assumes "q_rating body = Some x"
    and "fst (search_businesses st body) = OK bs"
    and "b \<in> set bs"
  shows "(\<exists>a. j_avgRating b = Some a \<and> x \<le> a) \<and> has_reviews st (b_id (j_business b))"
proof -
  from assms(2,3) obtain q r where
    q: "validate_search body = Some q" and r: "r \<in> set (search_query st q)" and b: "b = hydrate st r"
    by (rule search_businesses_row)
  from r have sel: "r \<in> set (select_businesses st)" and w: "search_where st q r"
    by (rule search_query_row)+
  from q assms(1) have "q_rating q = Some x"
    by (simp add: validate_search_rating)
  with w have a: "\<exists>a. snd r = Some a \<and> x \<le> a"
    by (auto simp: search_where_def rating_clause_def split: option.splits)
  have "has_reviews st (b_id (fst r))"
  proof (rule ccontr)
    assume "\<not> has_reviews st (b_id (fst r))"
    then have "snd r = None"
      using sel by (simp add: select_businesses_avg avgRating_of_None)
    with a show False by simp
  qed
  with a b show ?thesis by simp
qed

theorem rating_filter_witness:
  "q_rating (no_filters\<lparr>q_rating := Some 0\<rparr>) = Some 0 \<and>
   fst (search_businesses seed_without_b3_reviews (no_filters\<lparr>q_rating := Some 0\<rparr>)) =
     OK (map (hydrate seed_without_b3_reviews) (take 2 (select_businesses seed_without_b3_reviews))) \<and>
   map fst (take 2 (select_businesses seed_without_b3_reviews)) = take 2 seed_businesses \<and>
   (\<exists>a. j_avgRating (hydrate seed_without_b3_reviews (select_businesses seed_without_b3_reviews ! 0)) = Some a \<and>
        0 \<le> a) \<and>
   has_reviews seed_without_b3_reviews ''b1'' \<and>
   \<not> has_reviews seed_without_b3_reviews ''b3''"
proof -
  let ?st = seed_without_b3_reviews
  let ?q = "no_filters\<lparr>q_rating := Some 0\<rparr>"
  let ?bs = "map (hydrate ?st) (take 2 (select_businesses ?st))"
  let ?b = "hydrate ?st (select_businesses ?st ! 0)"
  have r: "q_rating ?q = Some 0" by simp
  have s: "fst (search_businesses ?st ?q) = OK ?bs" by code_simp
  have m: "?b \<in> set ?bs" by code_simp
  have i: "b_id (j_business ?b) = ''b1''" by code_simp
  have t: "map fst (take 2 (select_businesses ?st)) = take 2 seed_businesses" by code_simp
  have n: "\<not> has_reviews ?st ''b3''" by code_simp
  from rating_filter[OF r s m] i
  have "(\<exists>a. j_avgRating ?b = Some a \<and> 0 \<le> a) \<and> has_reviews ?st ''b1''" by simp
  with r s t n show ?thesis by blast
qed

lemma search_businesses_valid:
  "validate_search body = Some q \<Longrightarrow>
   fst (search_businesses st body) =
     (if search_query st q = [] then NotFound else OK (map (hydrate st) (search_query st q)))"
  by (simp add: search_businesses_def Let_def)

lemma rating_above_all_no_match:
  assumes "q_rating q = Some x" "rating_above_all st x"
  shows "search_matches st q = []"
proof -
  have "\<not> search_where st q r" if "r \<in> set (select_businesses st)" for r
  proof -
    from that obtain b where b: "b \<in> set (businesses st)" "r = (b, avgRating_of st (b_id b))"
      by (auto simp: select_businesses_def)
    with assms(2) have "case avgRating_of st (b_id b) of None \<Rightarrow> True | Some a \<Rightarrow> a < x"
      by (simp add: rating_above_all_def list_all_iff)
    then have "\<not> rating_clause q (snd r)"
      using assms(1) b by (auto simp: rating_clause_def split: option.splits)
    then show ?thesis by (simp add: search_where_def)
  qed
  then show ?thesis by (simp add: search_matches_def filter_empty_conv)
qed

text \<open>
  Claim C7. For a search request that passes validation, the response is 404 when the
  query returns no row, and 200 with the hydrated rows when it returns some; a rating
  filter above the average rating of every business gives 404.
\<close>

theorem search_empty_not_found:
  assumes "validate_search body = Some q"
  shows "(search_query st q = [] \<longrightarrow> fst (search_businesses st body) = NotFound) \<and>
         (search_query st q \<noteq> [] \<longrightarrow>
            fst (search_businesses st body) = OK (map (hydrate st) (search_query st q))) \<and>
         (\<forall>x. q_rating body = Some x \<and> rating_above_all st x \<longrightarrow>
            fst (search_businesses st body) = NotFound)"
proof -
  have "fst (search_businesses st body) = NotFound"
    if "q_rating body = Some x" "rating_above_all st x" for x
  proof -
    from assms that(1) have "q_rating q = Some x" by (simp add: validate_search_rating)
    then have "search_matches st q = []" using that(2) by (rule rating_above_all_no_match)
    then have "search_query st q = []" by (simp add: search_query_def order_by_def Let_def)
    then show ?thesis by (simp add: search_businesses_valid[OF assms])
  qed
  then show ?thesis
    by (simp add: search_businesses_valid[OF assms])
qed

theorem search_empty_not_found_witness:
  "validate_search (no_filters\<lparr>q_rating := Some 6\<rparr>) =
     Some (no_filters\<lparr>q_rating := Some 6, q_sortBy := Some ''name'', q_sortDirection := Some ''asc''\<rparr>) \<and>
   rating_above_all seed_store 6 \<and>
   fst (search_businesses seed_store (no_filters\<lparr>q_rating := Some 6\<rparr>)) = NotFound \<and>
   validate_search (no_filters\<lparr>q_service := Some ''clean''\<rparr>) =
     Some (no_filters\<lparr>q_service := Some ''clean'', q_sortBy := Some ''name'', q_sortDirection := Some ''asc''\<rparr>) \<and>
   map (\<lambda>r. b_id (fst r))
     (search_query seed_store
        (no_filters\<lparr>q_service := Some ''clean'', q_sortBy := Some ''name'', q_sortDirection := Some ''asc''\<rparr>)) =
     [''b1'', ''b2''] \<and>
   fst (search_businesses seed_store (no_filters\<lparr>q_service := Some ''clean''\<rparr>)) =
     OK (map (hydrate seed_store)
          (search_query seed_store
             (no_filters\<lparr>q_service := Some ''clean'', q_sortBy := Some ''name'', q_sortDirection := Some ''asc''\<rparr>)))"
proof -
  let ?b6 = "no_filters\<lparr>q_rating := Some 6\<rparr>"
  let ?q6 = "no_filters\<lparr>q_rating := Some 6, q_sortBy := Some ''name'', q_sortDirection := Some ''asc''\<rparr>"
  let ?bc = "no_filters\<lparr>q_service := Some ''clean''\<rparr>"
  let ?qc = "no_filters\<lparr>q_service := Some ''clean'', q_sortBy := Some ''name'', q_sortDirection := Some ''asc''\<rparr>"
  have v6: "validate_search ?b6 = Some ?q6" by code_simp
  have a6: "rating_above_all seed_store 6" by code_simp
  have r6: "q_rating ?b6 = Some 6" by simp
  have vc: "validate_search ?bc = Some ?qc" by code_simp
  have mc: "map (\<lambda>r. b_id (fst r)) (search_query seed_store ?qc) = [''b1'', ''b2'']" by code_simp
  then have nc: "search_query seed_store ?qc \<noteq> []" by auto
  from search_empty_not_found[OF v6, of seed_store] r6 a6
  have 1: "fst (search_businesses seed_store ?b6) = NotFound" by blast
  from search_empty_not_found[OF vc, of seed_store] nc
  have 2: "fst (search_businesses seed_store ?bc) = OK (map (hydrate seed_store) (search_query seed_store ?qc))"
    by blast
  from v6 a6 1 vc mc 2 show ?thesis by blast
qed

lemma validate_no_filters:
  "validate_search no_filters = Some (no_filters\<lparr>q_sortBy := Some ''name'', q_sortDirection := Some ''asc''\<rparr>)"
  by (simp add: validate_search_def no_filters_def Let_def out_of_range_def)

lemma search_where_no_filters:
  "search_where st (no_filters\<lparr>q_sortBy := Some ''name'', q_sortDirection := Some ''asc''\<rparr>) r"
  by (simp add: search_where_def no_filters_def text_clause_def hours_clause_def service_clause_def
      location_clause_def rating_clause_def)

lemma map_fst_insort_key:
  "map fst (insort_key (\<lambda>r. k (fst r)) x rs) = insort_key k (fst x) (map fst rs)"
  by (induction rs) simp_all

lemma map_fst_sort_key:
  "map fst (sort_key (\<lambda>r. k (fst r)) rs) = sort_key k (map fst rs)"
  by (induction rs) (simp_all add: map_fst_insort_key)

lemma search_query_no_filters:
  "search_query st (no_filters\<lparr>q_sortBy := Some ''name'', q_sortDirection := Some ''asc''\<rparr>) =
     take MAX_BUSINESS_PER_PAGE (sort_key (\<lambda>r. b_name (fst r)) (select_businesses st))"
  by (simp add: search_query_def search_matches_def search_where_no_filters order_by_def)

lemma length_search_query: "length (search_query st q) \<le> MAX_BUSINESS_PER_PAGE"
  by (simp add: search_query_def)

text \<open>
  Claim C9. A search with no field supplied answers with the stored businesses in
  ascending order of name, cut after the first 25 (with 404 when no business is
  stored); and no search answers with more than 25 businesses.
\<close>

theorem search_no_filters_page:
  "(businesses st = [] \<longrightarrow> fst (search_businesses st no_filters) = NotFound) \<and>
   (businesses st \<noteq> [] \<longrightarrow>
      (\<exists>bs. fst (search_businesses st no_filters) = OK bs \<and>
            map j_business bs = take 25 (sort_key b_name (businesses st)) \<and>
            sorted (map (\<lambda>b. b_name (j_business b)) bs))) \<and>
   (\<forall>bs. fst (search_businesses st body) = OK bs \<longrightarrow> length bs \<le> 25)"
proof (intro conjI impI allI)
  let ?q = "no_filters\<lparr>q_sortBy := Some ''name'', q_sortDirection := Some ''asc''\<rparr>"
  have fstsel: "map fst (select_businesses st) = businesses st"
    by (simp add: select_businesses_def comp_def)
  have rows: "map fst (search_query st ?q) = take 25 (sort_key b_name (businesses st))"
    by (simp add: search_query_no_filters MAX_BUSINESS_PER_PAGE_def take_map[symmetric]
        map_fst_sort_key fstsel)
  have resp: "fst (search_businesses st no_filters) =
      (if search_query st ?q = [] then NotFound else OK (map (hydrate st) (search_query st ?q)))"
    by (rule search_businesses_valid[OF validate_no_filters])
  {
    assume "businesses st = []"
    then have "search_query st ?q = []"
      using rows by simp
    then show "fst (search_businesses st no_filters) = NotFound"
      by (simp add: resp)
  }
  {
    assume ne: "businesses st \<noteq> []"
    then have "take 25 (sort_key b_name (businesses st)) \<noteq> []"
      by (metis length_sort length_0_conv take_eq_Nil zero_neq_numeral)
    then have q: "search_query st ?q \<noteq> []" using rows by auto
    let ?bs = "map (hydrate st) (search_query st ?q)"
    have 1: "fst (search_businesses st no_filters) = OK ?bs" using q by (simp add: resp)
    have 2: "map j_business ?bs = take 25 (sort_key b_name (businesses st))"
      using rows by (simp add: comp_def)
    have "sorted (map b_name (take 25 (sort_key b_name (businesses st))))"
      by (simp add: take_map[symmetric] sorted_wrt_take)
    then have 3: "sorted (map (\<lambda>b. b_name (j_business b)) ?bs)"
      using 2 by (metis (no_types, lifting) map_map comp_def map_eq_conv)
    from 1 2 3 show "\<exists>bs. fst (search_businesses st no_filters) = OK bs \<and>
            map j_business bs = take 25 (sort_key b_name (businesses st)) \<and>
            sorted (map (\<lambda>b. b_name (j_business b)) bs)" by blast
  }
  {
    fix bs assume "fst (search_businesses st body) = OK bs"
    then obtain q where "bs = map (hydrate st) (search_query st q)"
      by (auto simp: search_businesses_def Let_def split: option.splits if_splits)
    then show "length bs \<le> 25"
      using length_search_query[of st q] by (simp add: MAX_BUSINESS_PER_PAGE_def)
  }
qed

theorem search_no_filters_page_witness:
  "fst (search_businesses empty_store no_filters) = NotFound \<and>
   (\<exists>bs. fst (search_businesses seed_store no_filters) = OK bs \<and>
         map (\<lambda>b. b_name (j_business b)) bs =
           [''Sample Business #1'', ''Sample Business #2'', ''Sample Business #3'']) \<and>
   (\<exists>bs. fst (search_businesses (crowd 26) no_filters) = OK bs \<and> length bs = 25 \<and>
         length (businesses (crowd 26)) = 26)"
proof -
  have e: "businesses empty_store = []" by (simp add: empty_store_def)
  from search_no_filters_page[of empty_store] e
  have 1: "fst (search_businesses empty_store no_filters) = NotFound" by blast
  have s: "businesses seed_store \<noteq> []" by (simp add: seed_store_def seed_businesses_def)
  have n: "map b_name (take 25 (sort_key b_name (businesses seed_store))) =
      [''Sample Business #1'', ''Sample Business #2'', ''Sample Business #3'']" by code_simp
  from search_no_filters_page[of seed_store] s obtain bs where
    bs: "fst (search_businesses seed_store no_filters) = OK bs"
      "map j_business bs = take 25 (sort_key b_name (businesses seed_store))" by blast
  from bs(2) have "map b_name (map j_business bs) = map b_name (take 25 (sort_key b_name (businesses seed_store)))"
    by simp
  with n have "map (\<lambda>b. b_name (j_business b)) bs =
      [''Sample Business #1'', ''Sample Business #2'', ''Sample Business #3'']"
    by (simp add: comp_def)
  with bs(1) have 2: "\<exists>bs. fst (search_businesses seed_store no_filters) = OK bs \<and>
         map (\<lambda>b. b_name (j_business b)) bs =
           [''Sample Business #1'', ''Sample Business #2'', ''Sample Business #3'']"
    by (intro exI[of _ bs] conjI)
  have l: "length (businesses (crowd 26)) = 26" by (simp add: crowd_def)
  then have c: "businesses (crowd 26) \<noteq> []" by auto
  from search_no_filters_page[of "crowd 26"] c obtain cs where
    cs: "fst (search_businesses (crowd 26) no_filters) = OK cs"
      "map j_business cs = take 25 (sort_key b_name (businesses (crowd 26)))" by blast
  from cs(2) have "length (map j_business cs) = length (take 25 (sort_key b_name (businesses (crowd 26))))"
    by simp
  with l have "length cs = 25" by simp
  with cs(1) l have 3: "\<exists>bs. fst (search_businesses (crowd 26) no_filters) = OK bs \<and> length bs = 25 \<and>
         length (businesses (crowd 26)) = 26"
    by (intro exI[of _ cs] conjI)
  from 1 2 3 show ?thesis by (intro conjI)
qed

lemma search_where_hours:
  assumes "q_dayOfWeek q = Some d" "q_hour q = Some h"
  shows "search_where st q r \<longleftrightarrow> other_filters st q r \<and> open_at st (b_id (fst r)) d h"
proof -
  have h: "hours_clause st q (b_id (fst r)) = open_at st (b_id (fst r)) d h"
    using assms by (auto simp: hours_clause_def open_at_def list_ex_iff)
  have o: "other_filters st q r \<longleftrightarrow>
      text_clause (q_name q) (Some (b_name (fst r))) \<and>
      text_clause (q_addressLine1 q) (b_addressLine1 (fst r)) \<and>
      text_clause (q_addressLine2 q) (b_addressLine2 (fst r)) \<and>
      text_clause (q_city q) (b_city (fst r)) \<and>
      text_clause (q_state q) (b_state (fst r)) \<and>
      text_clause (q_postal q) (b_postal (fst r)) \<and>
      service_clause st q (b_id (fst r)) \<and>
      location_clause st q (b_id (fst r)) \<and>
      rating_clause q (snd r)"
    by (simp add: other_filters_def search_where_def hours_clause_def service_clause_def
        location_clause_def rating_clause_def)
  show ?thesis
    unfolding o search_where_def h by blast
qed

lemma search_matches_hours:
  assumes "q_dayOfWeek q = Some d" "q_hour q = Some h"
  shows "search_matches st q = open_and_filtered st q d h"
  unfolding search_matches_def open_and_filtered_def
  by (rule filter_cong) (simp_all add: search_where_hours[OF assms])

lemma order_by_Nil [simp]: "order_by q rows = [] \<longleftrightarrow> rows = []"
  by (metis length_order_by length_0_conv)

lemma search_query_Nil: "search_query st q = [] \<longleftrightarrow> search_matches st q = []"
  by (simp add: search_query_def MAX_BUSINESS_PER_PAGE_def)

lemma hydrate_inject: "hydrate st r = hydrate st r' \<longleftrightarrow> r = r'"
proof
  assume "hydrate st r = hydrate st r'"
  then have "j_business (hydrate st r) = j_business (hydrate st r')"
    "j_avgRating (hydrate st r) = j_avgRating (hydrate st r')" by simp_all
  then show "r = r'" by (simp add: prod_eq_iff)
qed simp

lemma search_response_rows:
  assumes "validate_search body = Some q"
  shows "in_response (fst (search_businesses st body)) (hydrate st r) \<longleftrightarrow> r \<in> set (search_query st q)"
proof (cases "search_query st q = []")
  case True
  then show ?thesis
    by (simp add: search_businesses_valid[OF assms] in_response_def)
next
  case False
  then show ?thesis
    by (auto simp: search_businesses_valid[OF assms] in_response_def hydrate_inject)
qed

text \<open>
  Claim C5, amended. When dayOfWeek and hour are both supplied, the response holds the
  first 25, in the order asked, of the businesses that pass the other filters and have an
  Hour row of that day with open <= hour <= close (and is 404 when there is none). So a
  business is in the result if and only if it is among those first 25; and when at most
  25 businesses pass, if and only if it passes the other filters and has such a row.
\<close>

theorem hours_filter:
  assumes "validate_search body = Some q"
    and "q_dayOfWeek body = Some d" and "q_hour body = Some h"
  shows "fst (search_businesses st body) =
           (if open_and_filtered st q d h = [] then NotFound
            else OK (map (hydrate st) (take 25 (order_by q (open_and_filtered st q d h))))) \<and>
         (in_response (fst (search_businesses st body)) (hydrate st r) \<longleftrightarrow>
            r \<in> set (take 25 (order_by q (open_and_filtered st q d h)))) \<and>
         (length (open_and_filtered st q d h) \<le> 25 \<longrightarrow>
            (in_response (fst (search_businesses st body)) (hydrate st r) \<longleftrightarrow>
               r \<in> set (select_businesses st) \<and> other_filters st q r \<and>
               open_at st (b_id (fst r)) d h))"
proof -
  from assms have dh: "q_dayOfWeek q = Some d" "q_hour q = Some h"
    by (simp_all add: validate_search_hours)
  have m: "search_matches st q = open_and_filtered st q d h"
    by (rule search_matches_hours[OF dh])
  have p: "search_query st q = take 25 (order_by q (open_and_filtered st q d h))"
    by (simp add: search_query_def MAX_BUSINESS_PER_PAGE_def m)
  have e: "search_query st q = [] \<longleftrightarrow> open_and_filtered st q d h = []"
    by (simp add: search_query_Nil m)
  have 1: "fst (search_businesses st body) =
           (if open_and_filtered st q d h = [] then NotFound
            else OK (map (hydrate st) (take 25 (order_by q (open_and_filtered st q d h)))))"
    using e by (simp add: search_businesses_valid[OF assms(1)] p[symmetric])
  have 2: "in_response (fst (search_businesses st body)) (hydrate st r) \<longleftrightarrow>
            r \<in> set (take 25 (order_by q (open_and_filtered st q d h)))"
    by (simp add: search_response_rows[OF assms(1)] p)
  have 3: "in_response (fst (search_businesses st body)) (hydrate st r) \<longleftrightarrow>
               r \<in> set (select_businesses st) \<and> other_filters st q r \<and>
               open_at st (b_id (fst r)) d h"
    if "length (open_and_filtered st q d h) \<le> 25"
  proof -
    from that have "set (take 25 (order_by q (open_and_filtered st q d h))) =
        set (open_and_filtered st q d h)" by simp
    with 2 show ?thesis by (auto simp: open_and_filtered_def)
  qed
  from 1 2 3 show ?thesis by blast
qed

theorem hours_filter_witness:
  "validate_search (no_filters\<lparr>q_dayOfWeek := Some 6, q_hour := Some 8\<rparr>) =
     Some (no_filters\<lparr>q_dayOfWeek := Some 6, q_hour := Some 8, q_sortBy := Some ''name'',
             q_sortDirection := Some ''asc''\<rparr>) \<and>
   filter (\<lambda>h. h_businessId h = ''b2'' \<and> h_dayOfWeek h = 6) seed_hours =
     [\<lparr>h_id = ''b2-h6'', h_businessId = ''b2'', h_dayOfWeek = 6, h_open = 9, h_close = 12,
       h_created_at = 0, h_updated_at = 0\<rparr>] \<and>
   filter (\<lambda>h. h_businessId h = ''b3'' \<and> h_dayOfWeek h = 6) seed_hours =
     [\<lparr>h_id = ''b3-h6'', h_businessId = ''b3'', h_dayOfWeek = 6, h_open = 8, h_close = 18,
       h_created_at = 0, h_updated_at = 0\<rparr>] \<and>
   fst (search_businesses seed_store (no_filters\<lparr>q_dayOfWeek := Some 6, q_hour := Some 8\<rparr>)) =
     OK [hydrate seed_store (seed_businesses ! 2, Some 5)] \<and>
   in_response (fst (search_businesses seed_store (no_filters\<lparr>q_dayOfWeek := Some 6, q_hour := Some 8\<rparr>)))
     (hydrate seed_store (seed_businesses ! 2, Some 5)) \<and>
   \<not> in_response (fst (search_businesses seed_store (no_filters\<lparr>q_dayOfWeek := Some 6, q_hour := Some 8\<rparr>)))
     (hydrate seed_store (seed_businesses ! 1, Some (37 / 10)))"
proof -
  let ?b = "no_filters\<lparr>q_dayOfWeek := Some 6, q_hour := Some 8\<rparr>"
  let ?q = "no_filters\<lparr>q_dayOfWeek := Some 6, q_hour := Some 8, q_sortBy := Some ''name'',
             q_sortDirection := Some ''asc''\<rparr>"
  let ?r2 = "(seed_businesses ! 1, Some (37 / 10 :: rat))"
  let ?r3 = "(seed_businesses ! 2, Some (5 :: rat))"
  have v: "validate_search ?b = Some ?q" by code_simp
  have d: "q_dayOfWeek ?b = Some 6" and h: "q_hour ?b = Some 8" by simp_all
  have h2: "filter (\<lambda>h. h_businessId h = ''b2'' \<and> h_dayOfWeek h = 6) seed_hours =
     [\<lparr>h_id = ''b2-h6'', h_businessId = ''b2'', h_dayOfWeek = 6, h_open = 9, h_close = 12,
       h_created_at = 0, h_updated_at = 0\<rparr>]" by code_simp
  have h3: "filter (\<lambda>h. h_businessId h = ''b3'' \<and> h_dayOfWeek h = 6) seed_hours =
     [\<lparr>h_id = ''b3-h6'', h_businessId = ''b3'', h_dayOfWeek = 6, h_open = 8, h_close = 18,
       h_created_at = 0, h_updated_at = 0\<rparr>]" by code_simp
  have f: "open_and_filtered seed_store ?q 6 8 = [?r3]" by code_simp
  have t: "take 25 (order_by ?q [?r3]) = [?r3]" by code_simp
  have c2: "\<not> open_at seed_store (b_id (fst ?r2)) 6 8" by code_simp
  have c3: "open_at seed_store (b_id (fst ?r3)) 6 8" by code_simp
  have s3: "?r3 \<in> set (select_businesses seed_store)" by code_simp
  have o3: "other_filters seed_store ?q ?r3" by code_simp
  have l: "length (open_and_filtered seed_store ?q 6 8) \<le> 25" by (simp add: f)
  from hours_filter[OF v d h, of seed_store ?r3] f t
  have 1: "fst (search_businesses seed_store ?b) = OK [hydrate seed_store ?r3]" by simp
  from hours_filter[OF v d h, of seed_store ?r3] l c3 s3 o3
  have 2: "in_response (fst (search_businesses seed_store ?b)) (hydrate seed_store ?r3)" by blast
  from hours_filter[OF v d h, of seed_store ?r2] l c2
  have 3: "\<not> in_response (fst (search_businesses seed_store ?b)) (hydrate seed_store ?r2)" by blast
  from v h2 h3 1 2 3 show ?thesis by (intro conjI)
qed

text \<open>
  Claim C5 as it is stated fails where more than 25 businesses match: of 26 businesses
  that are all open on day 6 from 8 to 18, the last by name passes every filter of
  \<open>{dayOfWeek: 6, hour: 8}\<close> and has the Hour row, and is not in the 200 response.
\<close>

theorem hours_filter_counterexample:
  "validate_search (no_filters\<lparr>q_dayOfWeek := Some 6, q_hour := Some 8\<rparr>) =
     Some (no_filters\<lparr>q_dayOfWeek := Some 6, q_hour := Some 8, q_sortBy := Some ''name'',
             q_sortDirection := Some ''asc''\<rparr>) \<and>
   (businesses (crowd_open 26) ! 25, None) \<in> set (select_businesses (crowd_open 26)) \<and>
   other_filters (crowd_open 26)
     (no_filters\<lparr>q_dayOfWeek := Some 6, q_hour := Some 8, q_sortBy := Some ''name'',
        q_sortDirection := Some ''asc''\<rparr>)
     (businesses (crowd_open 26) ! 25, None) \<and>
   open_at (crowd_open 26) (b_id (businesses (crowd_open 26) ! 25)) 6 8 \<and>
   status (fst (search_businesses (crowd_open 26) (no_filters\<lparr>q_dayOfWeek := Some 6, q_hour := Some 8\<rparr>))) = 200 \<and>
   \<not> in_response
       (fst (search_businesses (crowd_open 26) (no_filters\<lparr>q_dayOfWeek := Some 6, q_hour := Some 8\<rparr>)))
       (hydrate (crowd_open 26) (businesses (crowd_open 26) ! 25, None))"
proof -
  let ?st = "crowd_open 26"
  let ?b = "no_filters\<lparr>q_dayOfWeek := Some 6, q_hour := Some 8\<rparr>"
  let ?q = "no_filters\<lparr>q_dayOfWeek := Some 6, q_hour := Some 8, q_sortBy := Some ''name'',
             q_sortDirection := Some ''asc''\<rparr>"
  let ?r = "(businesses ?st ! 25, None :: rat option)"
  have v: "validate_search ?b = Some ?q" by code_simp
  have s: "?r \<in> set (select_businesses ?st)" by code_simp
  have o: "other_filters ?st ?q ?r" by code_simp
  have c: "open_at ?st (b_id (businesses ?st ! 25)) 6 8" by code_simp
  have n: "?r \<notin> set (search_query ?st ?q)" by code_simp
  have e: "search_query ?st ?q \<noteq> []" by code_simp
  from e have 1: "status (fst (search_businesses ?st ?b)) = 200"
    by (simp add: search_businesses_valid[OF v])
  from n have 2: "\<not> in_response (fst (search_businesses ?st ?b)) (hydrate ?st ?r)"
    by (simp add: search_response_rows[OF v])
  from v s o c 1 2 show ?thesis by (intro conjI)
qed

lemma validate_search_None: "validate_search body = None \<longleftrightarrow> invalid_search body"
  by (cases "q_sortBy body"; cases "q_sortDirection body"; cases "q_dayOfWeek body"; cases "q_hour body")
    (simp_all add: validate_search_def invalid_search_def out_of_range_def Let_def)

lemma validate_search_Some:
  "validate_search body = Some q \<Longrightarrow>
     q = body\<lparr>q_sortBy := Some (lowered_or (q_sortBy body) ''name''),
             q_sortDirection := Some (lowered_or (q_sortDirection body) ''asc'')\<rparr>"
  by (cases "q_sortBy body"; cases "q_sortDirection body")
    (auto simp: validate_search_def lowered_or_def Let_def split: if_splits)

text \<open>
  Claim C4, amended. Search answers 400 exactly when exactly one of dayOfWeek and
  hour is supplied, or dayOfWeek is outside 0..6, or hour is outside 0..23, or sortBy is
  a non-empty string whose lower case is neither name nor rating, or sortDirection is a
  non-empty string whose lower case is neither asc nor desc; it then sends no query to
  the store. Otherwise the search goes on with sortBy and sortDirection in lower case,
  or with name and asc where they are absent or empty.
\<close>

theorem search_validation:
  "(fst (search_businesses st body) = BadRequest \<longleftrightarrow> invalid_search body) \<and>
   (invalid_search body \<longrightarrow> search_businesses st body = (BadRequest, 0)) \<and>
   (\<not> invalid_search body \<longrightarrow>
      validate_search body =
        Some (body\<lparr>q_sortBy := Some (lowered_or (q_sortBy body) ''name''),
                   q_sortDirection := Some (lowered_or (q_sortDirection body) ''asc'')\<rparr>))"
proof -
  have a: "search_businesses st body = (BadRequest, 0)" if "invalid_search body"
    using that by (simp add: search_businesses_def validate_search_None[symmetric])
  have b: "validate_search body =
        Some (body\<lparr>q_sortBy := Some (lowered_or (q_sortBy body) ''name''),
                   q_sortDirection := Some (lowered_or (q_sortDirection body) ''asc'')\<rparr>)"
    if "\<not> invalid_search body"
  proof -
    from that obtain q where q: "validate_search body = Some q"
      using validate_search_None[of body] by auto
    from validate_search_Some[OF q] q show ?thesis by simp
  qed
  have c: "fst (search_businesses st body) \<noteq> BadRequest" if "\<not> invalid_search body"
    using b[OF that] by (simp add: search_businesses_def Let_def)
  from a b c show ?thesis by (metis fst_conv)
qed

theorem search_validation_witness:
  "invalid_search (no_filters\<lparr>q_dayOfWeek := Some 3\<rparr>) \<and>
   search_businesses seed_store (no_filters\<lparr>q_dayOfWeek := Some 3\<rparr>) = (BadRequest, 0) \<and>
   invalid_search (no_filters\<lparr>q_sortBy := Some ''Price''\<rparr>) \<and>
   fst (search_businesses seed_store (no_filters\<lparr>q_sortBy := Some ''Price''\<rparr>)) = BadRequest \<and>
   \<not> invalid_search (no_filters\<lparr>q_sortBy := Some ''RATING''\<rparr>) \<and>
   validate_search (no_filters\<lparr>q_sortBy := Some ''RATING''\<rparr>) =
     Some (no_filters\<lparr>q_sortBy := Some ''rating'', q_sortDirection := Some ''asc''\<rparr>)"
proof -
  let ?b1 = "no_filters\<lparr>q_dayOfWeek := Some 3\<rparr>"
  let ?b2 = "no_filters\<lparr>q_sortBy := Some ''Price''\<rparr>"
  let ?b3 = "no_filters\<lparr>q_sortBy := Some ''RATING''\<rparr>"
  have i1: "invalid_search ?b1" by code_simp
  have i2: "invalid_search ?b2" by code_simp
  have i3: "\<not> invalid_search ?b3" by code_simp
  have l: "?b3\<lparr>q_sortBy := Some (lowered_or (q_sortBy ?b3) ''name''),
             q_sortDirection := Some (lowered_or (q_sortDirection ?b3) ''asc'')\<rparr> =
           no_filters\<lparr>q_sortBy := Some ''rating'', q_sortDirection := Some ''asc''\<rparr>" by code_simp
  from search_validation[of seed_store ?b1] i1
  have 1: "search_businesses seed_store ?b1 = (BadRequest, 0)" by blast
  from search_validation[of seed_store ?b2] i2
  have 2: "fst (search_businesses seed_store ?b2) = BadRequest" by blast
  from search_validation[of seed_store ?b3] i3
  have "validate_search ?b3 =
      Some (?b3\<lparr>q_sortBy := Some (lowered_or (q_sortBy ?b3) ''name''),
             q_sortDirection := Some (lowered_or (q_sortDirection ?b3) ''asc'')\<rparr>)" by blast
  with l have 3: "validate_search ?b3 =
      Some (no_filters\<lparr>q_sortBy := Some ''rating'', q_sortDirection := Some ''asc''\<rparr>)" by simp
  from i1 1 i2 2 i3 3 show ?thesis by blast
qed

text \<open>
  Claim C4 as it is stated fails at \<open>{sortBy: ''}\<close>: sortBy is supplied and its lower
  case is neither name nor rating, and the answer is not 400 but the 200 of the search
  with no field.
\<close>

theorem search_validation_counterexample:
  "q_sortBy (no_filters\<lparr>q_sortBy := Some []\<rparr>) = Some [] \<and>
   toLowerCase [] \<noteq> ''name'' \<and> toLowerCase [] \<noteq> ''rating'' \<and>
   status (fst (search_businesses seed_store (no_filters\<lparr>q_sortBy := Some []\<rparr>))) = 200 \<and>
   search_businesses seed_store (no_filters\<lparr>q_sortBy := Some []\<rparr>) =
     search_businesses seed_store no_filters"
proof -
  have 1: "q_sortBy (no_filters\<lparr>q_sortBy := Some []\<rparr>) = Some []" by simp
  have 2: "toLowerCase [] \<noteq> ''name''" "toLowerCase [] \<noteq> ''rating''"
    by (simp_all add: toLowerCase_def)
  have 3: "status (fst (search_businesses seed_store (no_filters\<lparr>q_sortBy := Some []\<rparr>))) = 200"
    by code_simp
  have "validate_search (no_filters\<lparr>q_sortBy := Some []\<rparr>) = validate_search no_filters"
    by (simp add: validate_search_def no_filters_def Let_def)
  then have 4: "search_businesses seed_store (no_filters\<lparr>q_sortBy := Some []\<rparr>) =
     search_businesses seed_store no_filters"
    by (simp add: search_businesses_def)
  from 1 2 3 4 show ?thesis by blast
qed

lemma map_unmatched: "\<not> list_ex P xs \<Longrightarrow> map (\<lambda>x. if P x then f x else x) xs = xs"
  by (induction xs) simp_all

lemma filter_unmatched: "\<not> list_ex P xs \<Longrightarrow> filter (\<lambda>x. \<not> P x) xs = xs"
  by (induction xs) simp_all

lemma list_ex_unmatched: "\<not> list_ex P xs \<Longrightarrow> \<not> list_ex (\<lambda>x. P x \<and> Q x) xs"
  by (induction xs) simp_all

lemma put_hour_missing:
  assumes "business_exists st businessId" "no_hour st businessId ident" "valid_hour hour"
  shows "put_hour st businessId ident hour = (OK (), st)"
proof -
  from assms(3) obtain d opn cls where
    v: "hi_dayOfWeek hour = Some d" "hi_open hour = Some opn" "hi_close hour = Some cls"
      "0 \<le> d" "d \<le> 6" "0 \<le> opn" "opn \<le> 23" "0 \<le> cls" "cls \<le> 23" "opn < cls"
    by (auto simp: valid_hour_def split: option.splits)
  let ?P = "\<lambda>h. h_id h = ident \<and> h_businessId h = businessId"
  from assms(2) have n: "\<not> list_ex ?P (hours st)" by (simp add: no_hour_def)
  have c: "\<not> list_ex (\<lambda>t. h_id t = ident \<and> h_businessId t = businessId \<and>
                    list_ex (\<lambda>h. h_id h \<noteq> h_id t \<and> h_businessId h = h_businessId t \<and> h_dayOfWeek h = d)
                      (hours st)) (hours st)"
    using list_ex_unmatched[OF n, of "\<lambda>t. list_ex (\<lambda>h. h_id h \<noteq> h_id t \<and> h_businessId h = h_businessId t \<and> h_dayOfWeek h = d) (hours st)"]
    by (simp add: conj_assoc)
  have u: "update_hours st ident businessId d opn cls = Some st"
    unfolding update_hours_def using c map_unmatched[OF n] by simp
  show ?thesis
    using v assms(1) u by (simp add: put_hour_def out_of_range_def)
qed

lemma delete_hour_missing:
  assumes "business_exists st businessId" "no_hour st businessId ident"
  shows "delete_hour st businessId ident = (OK (), st)"
  using assms filter_unmatched[of "\<lambda>h. h_id h = ident \<and> h_businessId h = businessId" "hours st"]
  by (simp add: delete_hour_def no_hour_def)

lemma put_location_missing:
  assumes "business_exists st businessId" "no_location st businessId ident" "truthy (li_name location)"
  shows "put_location st now businessId ident location = (OK (), st)"
proof -
  let ?P = "\<lambda>l. l_id l = ident \<and> l_businessId l = businessId"
  let ?n = "the (li_name location)"
  from assms(2) have n: "\<not> list_ex ?P (locations st)" by (simp add: no_location_def)
  have c: "\<not> list_ex (\<lambda>t. l_id t = ident \<and> l_businessId t = businessId \<and>
                    list_ex (\<lambda>l. l_id l \<noteq> l_id t \<and> l_businessId l = l_businessId t \<and> l_name l = ?n)
                      (locations st)) (locations st)"
    using list_ex_unmatched[OF n, of "\<lambda>t. list_ex (\<lambda>l. l_id l \<noteq> l_id t \<and> l_businessId l = l_businessId t \<and> l_name l = ?n) (locations st)"]
    by (simp add: conj_assoc)
  have u: "update_locations st now ident businessId ?n = Some st"
    unfolding update_locations_def using c map_unmatched[OF n] by simp
  show ?thesis
    using assms(1,3) u by (simp add: put_location_def)
qed

lemma delete_location_missing:
  assumes "business_exists st businessId" "no_location st businessId ident"
  shows "delete_location st businessId ident = (OK (), st)"
  using assms filter_unmatched[of "\<lambda>l. l_id l = ident \<and> l_businessId l = businessId" "locations st"]
  by (simp add: delete_location_def no_location_def)

lemma put_service_missing:
  assumes "business_exists st businessId" "no_service st businessId ident" "truthy (si_name service)"
  shows "put_service st businessId ident service = (OK (), st)"
proof -
  let ?P = "\<lambda>s. s_id s = ident \<and> s_businessId s = businessId"
  let ?n = "the (si_name service)"
  from assms(2) have n: "\<not> list_ex ?P (services st)" by (simp add: no_service_def)
  have c: "\<not> list_ex (\<lambda>t. s_id t = ident \<and> s_businessId t = businessId \<and>
                    list_ex (\<lambda>s. s_id s \<noteq> s_id t \<and> s_businessId s = s_businessId t \<and> s_name s = ?n)
                      (services st)) (services st)"
    using list_ex_unmatched[OF n, of "\<lambda>t. list_ex (\<lambda>s. s_id s \<noteq> s_id t \<and> s_businessId s = s_businessId t \<and> s_name s = ?n) (services st)"]
    by (simp add: conj_assoc)
  have u: "update_services st ident businessId ?n = Some st"
    unfolding update_services_def using c map_unmatched[OF n] by simp
  show ?thesis
    using assms(1,3) u by (simp add: put_service_def)
qed

lemma delete_service_missing:
  assumes "business_exists st businessId" "no_service st businessId ident"
  shows "delete_service st businessId ident = (OK (), st)"
  using assms filter_unmatched[of "\<lambda>s. s_id s = ident \<and> s_businessId s = businessId" "services st"]
  by (simp add: delete_service_def no_service_def)

lemma put_review_missing:
  assumes "business_exists st businessId" "no_review st businessId ident" "valid_review review"
    "ri_comment review \<noteq> NullComment"
  shows "put_review st businessId ident review = (OK (), st)"
proof -
  from assms(3) obtain x where x: "ri_rating review = Some x" "0 \<le> x" "x \<le> 5"
    by (auto simp: valid_review_def split: option.splits)
  from assms(2) have n: "\<not> list_ex (\<lambda>r. r_id r = ident \<and> r_businessId r = businessId) (reviews st)"
    by (simp add: no_review_def)
  show ?thesis
    using x assms(1,4) map_unmatched[OF n] by (simp add: put_review_def update_reviews_def)
qed

lemma delete_review_missing:
  assumes "business_exists st businessId" "no_review st businessId ident"
  shows "delete_review st businessId ident = (OK (), st)"
  using assms filter_unmatched[of "\<lambda>r. r_id r = ident \<and> r_businessId r = businessId" "reviews st"]
  by (simp add: delete_review_def no_review_def)

text \<open>
  Claim C10, amended. When the parent business exists and no row of the child table
  has the given id under that business, a DELETE of the child, and a PUT of the child
  whose body passes the validation of its handler (and, for a review, whose comment is
  not \<open>null\<close>), answer 200 and leave the store as it was. This holds for hours, locations,
  services and reviews.
\<close>

theorem child_missing_ok:
  assumes "business_exists st businessId"
  shows "(no_hour st businessId ident \<longrightarrow>
            (valid_hour hour \<longrightarrow> put_hour st businessId ident hour = (OK (), st)) \<and>
            delete_hour st businessId ident = (OK (), st)) \<and>
         (no_location st businessId ident \<longrightarrow>
            (truthy (li_name location) \<longrightarrow> put_location st now businessId ident location = (OK (), st)) \<and>
            delete_location st businessId ident = (OK (), st)) \<and>
         (no_service st businessId ident \<longrightarrow>
            (truthy (si_name service) \<longrightarrow> put_service st businessId ident service = (OK (), st)) \<and>
            delete_service st businessId ident = (OK (), st)) \<and>
         (no_review st businessId ident \<longrightarrow>
            (valid_review review \<and> ri_comment review \<noteq> NullComment \<longrightarrow>
               put_review st businessId ident review = (OK (), st)) \<and>
            delete_review st businessId ident = (OK (), st))"
  using put_hour_missing[OF assms] delete_hour_missing[OF assms]
    put_location_missing[OF assms] delete_location_missing[OF assms]
    put_service_missing[OF assms] delete_service_missing[OF assms]
    put_review_missing[OF assms] delete_review_missing[OF assms]
  by blast

theorem child_missing_ok_witness:
  "business_exists seed_store ''b1'' \<and>
   no_hour seed_store ''b1'' ''b2-h1'' \<and>
   put_hour seed_store ''b1'' ''b2-h1'' \<lparr>hi_dayOfWeek = Some 6, hi_open = Some 9, hi_close = Some 17\<rparr> =
     (OK (), seed_store) \<and>
   delete_hour seed_store ''b1'' ''b2-h1'' = (OK (), seed_store) \<and>
   no_location seed_store ''b1'' ''b2-l1'' \<and>
   put_location seed_store 7 ''b1'' ''b2-l1'' \<lparr>li_name = Some ''Boulder''\<rparr> = (OK (), seed_store) \<and>
   delete_location seed_store ''b1'' ''b2-l1'' = (OK (), seed_store) \<and>
   no_service seed_store ''b1'' ''b2-s1'' \<and>
   put_service seed_store ''b1'' ''b2-s1'' \<lparr>si_name = Some ''Painting''\<rparr> = (OK (), seed_store) \<and>
   delete_service seed_store ''b1'' ''b2-s1'' = (OK (), seed_store) \<and>
   no_review seed_store ''b1'' ''b2-r1'' \<and>
   put_review seed_store ''b1'' ''b2-r1'' \<lparr>ri_rating = Some 3, ri_comment = Comment ''Fine''\<rparr> = (OK (), seed_store) \<and>
   delete_review seed_store ''b1'' ''b2-r1'' = (OK (), seed_store)"
proof -
  let ?h = "\<lparr>hi_dayOfWeek = Some 6, hi_open = Some 9, hi_close = Some 17\<rparr>"
  let ?l = "\<lparr>li_name = Some ''Boulder''\<rparr>"
  let ?s = "\<lparr>si_name = Some ''Painting''\<rparr>"
  let ?r = "\<lparr>ri_rating = Some 3, ri_comment = Comment ''Fine''\<rparr>"
  have b: "business_exists seed_store ''b1''" by code_simp
  have nh: "no_hour seed_store ''b1'' ''b2-h1''" by code_simp
  have nl: "no_location seed_store ''b1'' ''b2-l1''" by code_simp
  have ns: "no_service seed_store ''b1'' ''b2-s1''" by code_simp
  have nr: "no_review seed_store ''b1'' ''b2-r1''" by code_simp
  have vh: "valid_hour ?h" by (simp add: valid_hour_def)
  have vl: "truthy (li_name ?l)" by simp
  have vs: "truthy (si_name ?s)" by simp
  have vr: "valid_review ?r" "ri_comment ?r \<noteq> NullComment" by (simp_all add: valid_review_def)
  from child_missing_ok[OF b, where ident = "''b2-h1''" and hour = ?h] nh vh
  have 1: "put_hour seed_store ''b1'' ''b2-h1'' ?h = (OK (), seed_store)"
    "delete_hour seed_store ''b1'' ''b2-h1'' = (OK (), seed_store)" by blast+
  from child_missing_ok[OF b, where ident = "''b2-l1''" and location = ?l and now = 7] nl vl
  have 2: "put_location seed_store 7 ''b1'' ''b2-l1'' ?l = (OK (), seed_store)"
    "delete_location seed_store ''b1'' ''b2-l1'' = (OK (), seed_store)" by blast+
  from child_missing_ok[OF b, where ident = "''b2-s1''" and service = ?s] ns vs
  have 3: "put_service seed_store ''b1'' ''b2-s1'' ?s = (OK (), seed_store)"
    "delete_service seed_store ''b1'' ''b2-s1'' = (OK (), seed_store)" by blast+
  from child_missing_ok[OF b, where ident = "''b2-r1''" and review = ?r] nr vr
  have 4: "put_review seed_store ''b1'' ''b2-r1'' ?r = (OK (), seed_store)"
    "delete_review seed_store ''b1'' ''b2-r1'' = (OK (), seed_store)" by blast+
  from b nh nl ns nr 1 2 3 4 show ?thesis by blast
qed

text \<open>
  Claim C10 as it is stated fails at a PUT whose body does not pass validation, and at
  the PUT of a review whose comment is \<open>null\<close>: the business b1 exists, it has no Hour
  row and no Review row with the id, and the answers are 400 and 500.
\<close>

theorem child_missing_ok_counterexample:
  "business_exists seed_store ''b1'' \<and>
   no_hour seed_store ''b1'' ''b2-h1'' \<and>
   put_hour seed_store ''b1'' ''b2-h1'' \<lparr>hi_dayOfWeek = Some 1, hi_open = Some 17, hi_close = Some 9\<rparr> =
     (BadRequest, seed_store) \<and>
   status (fst (put_hour seed_store ''b1'' ''b2-h1''
                  \<lparr>hi_dayOfWeek = Some 1, hi_open = Some 17, hi_close = Some 9\<rparr>)) \<noteq> 200 \<and>
   no_review seed_store ''b1'' ''b2-r1'' \<and>
   valid_review \<lparr>ri_rating = Some 3, ri_comment = NullComment\<rparr> \<and>
   put_review seed_store ''b1'' ''b2-r1'' \<lparr>ri_rating = Some 3, ri_comment = NullComment\<rparr> =
     (ServerError, seed_store) \<and>
   status (fst (put_review seed_store ''b1'' ''b2-r1'' \<lparr>ri_rating = Some 3, ri_comment = NullComment\<rparr>)) \<noteq> 200"
proof -
  have b: "business_exists seed_store ''b1''" by code_simp
  have nh: "no_hour seed_store ''b1'' ''b2-h1''" by code_simp
  have nr: "no_review seed_store ''b1'' ''b2-r1''" by code_simp
  have p: "put_hour seed_store ''b1'' ''b2-h1'' \<lparr>hi_dayOfWeek = Some 1, hi_open = Some 17, hi_close = Some 9\<rparr> =
     (BadRequest, seed_store)"
    by (simp add: put_hour_def out_of_range_def)
  have vr: "valid_review \<lparr>ri_rating = Some 3, ri_comment = NullComment\<rparr>"
    by (simp add: valid_review_def)
  have r: "put_review seed_store ''b1'' ''b2-r1'' \<lparr>ri_rating = Some 3, ri_comment = NullComment\<rparr> =
     (ServerError, seed_store)"
    using b by (simp add: put_review_def update_reviews_def)
  from b nh p nr vr r show ?thesis by simp
qed

text \<open>
  Claim C1 at the input \<open>{name: 'ZZZ', hours: [{dayOfWeek: 1, open: 13, close: 8}]}\<close>
  on an empty store: the claim asks that no business exists after a POST whose nested
  Hour has open >= close. The handler answers 200 with the new id, the business exists
  afterwards and so does the Hour row with open 13 and close 8.
\<close>

theorem post_business_bad_hour:
  "fst (post_business empty_store now v4 business_with_bad_hour) = OK (v4 0) \<and>
   business_exists (snd (post_business empty_store now v4 business_with_bad_hour)) (v4 0) \<and>
   hours (snd (post_business empty_store now v4 business_with_bad_hour)) =
     [\<lparr>h_id = v4 1, h_businessId = v4 0, h_dayOfWeek = 1, h_open = 13, h_close = 8,
       h_created_at = now, h_updated_at = now\<rparr>]"
  by (simp add: post_business_def empty_store_def business_with_bad_hour_def Let_def addIds_def
      items_length_def insert_business_def when_items_def business_exists_def)

text \<open>
  Claim C3 at a body that supplies addressLine2 and nothing else: the claim asks that
  such a request is accepted. The handler tests the key \<open>addressline2\<close>, which the body
  does not have, and answers 400.
\<close>

theorem put_business_only_addressLine2:
  "put_business st now ident (only_addressLine2 x) = (BadRequest, st)"
  by (simp add: put_business_def only_addressLine2_def)

end
